theory Spec2Isabelle
  imports Complex_Main "HOL-Library.AList"
begin

section \<open>Numbers\<close>

text \<open>
  A Python float is modelled by a rational, and sums, differences, products and
  comparisons of floats by the exact ones. Python's \<^verbatim>\<open>round\<close> rounds to the nearest value
  and, on a tie, to the even neighbour; \<open>py_round\<close> is \<^verbatim>\<open>round(x)\<close> and \<open>py_round1\<close> is
  \<^verbatim>\<open>round(x, 1)\<close>, both of the value they are given. The one place where a decimal tie of
  the exact value is decided by the binary float is the division of \<^verbatim>\<open>to_millions\<close>, and
  that division is modelled as Python computes it (\<open>true_divide\<close> below).
\<close>

definition py_round :: "rat \<Rightarrow> int" where
  "py_round x =
     (let f = \<lfloor>x\<rfloor>; d = x - of_int f
      in if d < 1 / 2 then f else if 1 / 2 < d then f + 1 else if even f then f else f + 1)"

definition py_round1 :: "rat \<Rightarrow> rat" where
  "py_round1 x = of_int (py_round (x * 10)) / 10"

datatype py_error =
  KeyError | ValueError | TypeError | IndexError | ZeroDivisionError | OverflowError

text \<open>
  \<^verbatim>\<open>a / b\<close> of two Python integers that are not negative: the quotient rounded to the
  nearest binary64 number, ties to the even mantissa. \<open>bit_length\<close> is \<^verbatim>\<open>int.bit_length\<close>;
  \<open>float_exponent\<close> is the exponent \<open>e\<close> of the quotient, \<open>2 ^ e \<le> a / b < 2 ^ (e + 1)\<close>, and not
  below that of the smallest normal number; \<open>float_mantissa\<close> is the quotient scaled by
  \<open>2 ^ (52 - e)\<close> and rounded, the 53 bits of the result. A quotient that rounds to
  \<open>2 ^ 1024\<close> or more raises OverflowError.
\<close>

definition pow2 :: "int \<Rightarrow> rat" where
  "pow2 k = (if 0 \<le> k then 2 ^ nat k else 1 / 2 ^ nat (- k))"

fun bit_length :: "nat \<Rightarrow> nat" where
  "bit_length n = (if n = 0 then 0 else Suc (bit_length (n div 2)))"

declare bit_length.simps [simp del]

definition float_exponent :: "nat \<Rightarrow> nat \<Rightarrow> int" where
  "float_exponent a b =
     (let e0 = int (bit_length a) - int (bit_length b)
      in max (if pow2 e0 \<le> of_nat a / of_nat b then e0 else e0 - 1) (- 1022))"

definition float_mantissa :: "nat \<Rightarrow> nat \<Rightarrow> int \<Rightarrow> int" where
  "float_mantissa a b e = py_round (of_nat a / of_nat b * pow2 (52 - e))"

definition true_divide :: "nat \<Rightarrow> nat \<Rightarrow> py_error + rat" where
  "true_divide a b =
     (if b = 0 then Inl ZeroDivisionError
      else if a = 0 then Inr 0
      else
        (let e = float_exponent a b;
             x = of_int (float_mantissa a b e) * pow2 (e - 52)
         in if pow2 1024 \<le> x then Inl OverflowError else Inr x))"

text \<open>
  A cell of a data frame: a missing value, a number, or text.
\<close>

datatype cell = NaN | Num rat | Str string

section \<open>The dashboard: roster and budget (dashboard.py, data_cleaning.py)\<close>

text \<open>
  A row of \<^verbatim>\<open>player_df\<close>. Only the columns the roster logic reads are kept. As scraped, the
  column \<^verbatim>\<open>Cap Hit\<close> is a cell; after \<^verbatim>\<open>to_millions\<close> it holds the text \<^verbatim>\<open>$x.ym\<close>, and the
  field \<open>Cap_Hit\<close> is then its number of tenths of a million (\<^verbatim>\<open>$12.3m\<close> is 123), of which
  \<open>cap_hit_float\<close> is \<^verbatim>\<open>float(x.replace('$', '').replace('m', ''))\<close>. The column \<^verbatim>\<open>Status\<close>
  is inserted after cleaning (dashboard.py 49); until then the field is not read.

  The frame's index label of a row and its \<^verbatim>\<open>id\<close> column are the same number in the
  data (\<^verbatim>\<open>players_and_salaries\<close> numbers the rows from the index, scraping.py 313-317, and
  \<^verbatim>\<open>read_csv\<close> numbers them again in the same order), and the dashboard uses the one for
  the other (\<^verbatim>\<open>row_id\<close> of a clicked cell is the \<^verbatim>\<open>id\<close>, \<^verbatim>\<open>player_df.loc[row_id]\<close> reads by
  label). The model identifies them: \<open>player_df\<close> maps a label to its row.
\<close>

record 'c player_row =
  Status :: string
  Player :: string
  Pos :: string
  Cap_Hit :: 'c

type_synonym scraped_player = "cell player_row"
type_synonym player = "nat player_row"

text \<open>
  \<^verbatim>\<open>to_millions\<close>, data_cleaning.py 136-145. \<^verbatim>\<open>re.sub(r'[^0-9]', '', s)\<close> keeps the digits;
  \<^verbatim>\<open>int\<close> of no digits raises ValueError, which is not caught; a cell that is not text
  makes \<^verbatim>\<open>re.sub\<close> raise TypeError, which is caught and gives 0. The number of dollars is
  divided by 1000000, which gives a float, and \<^verbatim>\<open>round(x, 1)\<close> rounds that float, not the exact
  quotient: 1,050,000 dollars are the float just above 1.05 and become \<^verbatim>\<open>$1.1m\<close>, and
  950,000 dollars are the float just below 0.95 and become \<^verbatim>\<open>$0.9m\<close>. (Python from 3.11 on
  refuses a text of more than 4300 digits with ValueError; such a number overflows the
  division here.)
\<close>

definition is_digit :: "char \<Rightarrow> bool" where
  "is_digit c \<longleftrightarrow> c \<in> set ''0123456789''"

definition digit_value :: "char \<Rightarrow> nat" where
  "digit_value c = of_char c - 48"

definition int_of_digits :: "string \<Rightarrow> nat" where
  "int_of_digits ds = foldl (\<lambda>a c. 10 * a + digit_value c) 0 ds"

definition dollars :: "cell \<Rightarrow> py_error + nat" where
  "dollars c =
     (case c of
        Str s \<Rightarrow>
          (let ds = filter is_digit s
           in if ds = [] then Inl ValueError else Inr (int_of_digits ds))
      | _ \<Rightarrow> Inr 0)"

definition to_millions :: "scraped_player \<Rightarrow> py_error + player" where
  "to_millions row =
     (case dollars (Cap_Hit row) of
        Inl e \<Rightarrow> Inl e
      | Inr n \<Rightarrow>
          (case true_divide n 1000000 of
             Inl e \<Rightarrow> Inl e
           | Inr x \<Rightarrow>
               Inr \<lparr>Status = Status row, Player = Player row, Pos = Pos row,
                    Cap_Hit = nat (py_round (x * 10))\<rparr>))"

text \<open>\<^verbatim>\<open>convert_salaries\<close>: \<^verbatim>\<open>df.apply(to_millions, axis=1)\<close>, row by row; the first exception
  ends it.\<close>

fun convert_salaries ::
  "(int \<times> scraped_player) list \<Rightarrow> py_error + (int \<times> player) list" where
  "convert_salaries [] = Inr []"
| "convert_salaries ((l, row) # df) =
     (case to_millions row of
        Inl e \<Rightarrow> Inl e
      | Inr row' \<Rightarrow>
          (case convert_salaries df of
             Inl e \<Rightarrow> Inl e
           | Inr df' \<Rightarrow> Inr ((l, row') # df')))"

definition cap_hit_float :: "player \<Rightarrow> rat" where
  "cap_hit_float p = of_nat (Cap_Hit p) / 10"

definition SALARY :: rat where
  "SALARY = 150"

record active_cell =
  row_id :: int
  column_id :: string

text \<open>
  The module's globals \<^verbatim>\<open>player_df\<close> and \<^verbatim>\<open>team_df\<close>, and the value of the
  \<^verbatim>\<open>salary_display\<close> component, which the callback receives as \<^verbatim>\<open>salary\<close> and writes back.
  \<^verbatim>\<open>team_df\<close> is a list of labelled rows: \<^verbatim>\<open>pd.concat\<close> appends, and nothing in pandas keeps
  its labels distinct.
\<close>

record dashboard =
  player_df :: "int \<rightharpoonup> player"
  team_df :: "(int \<times> player) list"
  salary_display :: rat

text \<open>
  Start of the session (dashboard.py 42-61, 80-88): every row gets Status \<^verbatim>\<open>ADD\<close>, the
  team is empty, the display shows \<^verbatim>\<open>SALARY\<close>.
\<close>

definition initial_dashboard :: "(int \<rightharpoonup> player) \<Rightarrow> dashboard" where
  "initial_dashboard pool =
     \<lparr>player_df = (\<lambda>l. map_option (\<lambda>p. p\<lparr>Status := ''ADD''\<rparr>) (pool l)),
      team_df = [],
      salary_display = SALARY\<rparr>"

definition salaries :: "(int \<times> player) list \<Rightarrow> rat" where
  "salaries team = sum_list (map (\<lambda>(l, p). cap_hit_float p) team)"

text \<open>\<^verbatim>\<open>team_df.drop(row_id, axis=0)\<close>: KeyError when no row has the label, else every row
  with the label goes.\<close>

definition drop_label :: "int \<Rightarrow> (int \<times> player) list \<Rightarrow> py_error + (int \<times> player) list" where
  "drop_label l team =
     (if l \<in> fst ` set team then Inr (filter (\<lambda>(k, p). k \<noteq> l) team) else Inl KeyError)"

text \<open>\<^verbatim>\<open>team_df['Status'] = 'REMOVE'\<close>\<close>

definition set_remove :: "(int \<times> player) list \<Rightarrow> (int \<times> player) list" where
  "set_remove team = map (\<lambda>(l, p). (l, p\<lparr>Status := ''REMOVE''\<rparr>)) team"

text \<open>
  \<^verbatim>\<open>add_players(cell, salary, team_cell)\<close>, dashboard.py 499-537. \<open>triggered_id\<close> is
  \<^verbatim>\<open>ctx.triggered_id\<close>; \<^verbatim>\<open>salary\<close> is the \<open>salary_display\<close> of the state. The result is the new
  state and the callback's outputs (the team table's records and the display value), or
  \<open>None\<close> for \<^verbatim>\<open>dash.no_update\<close>. An exception leaves the globals as they were: both
  lookups that can raise come before the first assignment to \<^verbatim>\<open>team_df\<close>.
\<close>

definition add_players ::
  "string \<Rightarrow> active_cell option \<Rightarrow> active_cell option \<Rightarrow> dashboard
     \<Rightarrow> py_error + (dashboard \<times> (player list \<times> rat) option)" where
  "add_players triggered_id cell0 team_cell st =
     (let cell = (if triggered_id = ''team_datatable'' then team_cell else cell0);
          salary = salary_display st
      in (case cell of
            None \<Rightarrow> Inr (st, None)
          | Some c \<Rightarrow>
             (if column_id c = ''Status'' then
               (case player_df st (row_id c) of
                  None \<Rightarrow> Inl KeyError
                | Some sel_player \<Rightarrow>
                   (let status = Status sel_player;
                        player_sal = cap_hit_float sel_player;
                        sals = salaries (team_df st);
                        res =
                          (if status = ''ADD'' then
                             (if SALARY - sals - player_sal < 0 then Inr (team_df st, salary)
                              else Inr (team_df st @ [(row_id c, sel_player)],
                                        SALARY - sals - player_sal))
                           else if status = ''REMOVE'' then
                             (case drop_label (row_id c) (team_df st) of
                                Inl e \<Rightarrow> Inl e
                              | Inr team \<Rightarrow> Inr (team, SALARY + player_sal - sals))
                           else Inr (team_df st, salary))
                    in (case res of
                          Inl e \<Rightarrow> Inl e
                        | Inr (team, salary') \<Rightarrow>
                           (let team' = set_remove team
                            in Inr (st\<lparr>team_df := team', salary_display := py_round1 salary'\<rparr>,
                                    Some (map snd team', py_round1 salary'))))))
              else Inr (st, None))))"

text \<open>
  \<^verbatim>\<open>modify_button\<close>, dashboard.py 352-370: every row of \<^verbatim>\<open>player_df\<close> gets Status \<^verbatim>\<open>ADD\<close>, then
  the rows labelled by the team's ids get \<^verbatim>\<open>REMOVE\<close>. The value it returns is a view of
  \<^verbatim>\<open>player_df\<close> for the table and is left out. Two places where pandas does more than the
  model: an id that labels no row would add a row to \<^verbatim>\<open>player_df\<close> (the team's rows are
  copies of rows of \<^verbatim>\<open>player_df\<close>, so there is none), and before the first accepted add
  \<^verbatim>\<open>team_df\<close> has no \<^verbatim>\<open>id\<close> column, so the first line raises KeyError and \<^verbatim>\<open>player_df\<close> keeps
  \<^verbatim>\<open>ADD\<close> in every row, which is what the loop over no ids leaves too.
\<close>

fun mark_remove :: "int list \<Rightarrow> (int \<rightharpoonup> player) \<Rightarrow> (int \<rightharpoonup> player)" where
  "mark_remove [] df = df"
| "mark_remove (i # ids) df =
     mark_remove ids (case df i of None \<Rightarrow> df | Some p \<Rightarrow> df(i \<mapsto> p\<lparr>Status := ''REMOVE''\<rparr>))"

definition modify_button :: "dashboard \<Rightarrow> dashboard" where
  "modify_button st =
     (let ids = map fst (team_df st);
          all_add = (\<lambda>l. map_option (\<lambda>p. p\<lparr>Status := ''ADD''\<rparr>) (player_df st l))
      in st\<lparr>player_df := mark_remove ids all_add\<rparr>)"

text \<open>
  One user action: a click in one of the two tables fires \<^verbatim>\<open>add_players\<close>; when it returns
  the team's records, the change of \<^verbatim>\<open>team_datatable.data\<close> fires \<^verbatim>\<open>modify_table\<close> with
  \<^verbatim>\<open>triggered_id == 'team_datatable'\<close>, which calls \<^verbatim>\<open>modify_button\<close> (dashboard.py 259-269).
  The session is the sequence of these actions, one at a time.
\<close>

record click =
  triggered :: string
  table_cell :: "active_cell option"
  team_cell :: "active_cell option"

definition on_click :: "dashboard \<Rightarrow> click \<Rightarrow> dashboard" where
  "on_click st ev =
     (case add_players (triggered ev) (table_cell ev) (team_cell ev) st of
        Inl e \<Rightarrow> st
      | Inr (st', None) \<Rightarrow> st'
      | Inr (st', Some out) \<Rightarrow> modify_button st')"

definition session :: "(int \<rightharpoonup> player) \<Rightarrow> click list \<Rightarrow> dashboard" where
  "session pool evs = foldl on_click (initial_dashboard pool) evs"

section \<open>Data frames\<close>

text \<open>
  A row is a record of the table (a dict of \<^verbatim>\<open>to_dict('records')\<close>, a line of a CSV file):
  column names with their cells. A frame is its list of column names and its rows; a cell
  a row does not give is missing (NaN). Column names are taken to be distinct, as
  \<^verbatim>\<open>read_csv\<close> and a list of dicts make them.
\<close>

type_synonym row = "(string \<times> cell) list"

record frame =
  columns :: "string list"
  rows :: "row list"

definition cell_at :: "row \<Rightarrow> string \<Rightarrow> cell" where
  "cell_at r label = (case map_of r label of None \<Rightarrow> NaN | Some c \<Rightarrow> c)"

definition column :: "frame \<Rightarrow> string \<Rightarrow> cell list" where
  "column df label = map (\<lambda>r. cell_at r label) (rows df)"

text \<open>\<^verbatim>\<open>pd.DataFrame.from_dict(records)\<close>: the columns are the keys in the order they are
  first seen.\<close>

definition first_seen :: "'a list \<Rightarrow> 'a list" where
  "first_seen xs = rev (remdups (rev xs))"

definition from_dict :: "row list \<Rightarrow> frame" where
  "from_dict records = \<lparr>columns = first_seen (concat (map (map fst) records)), rows = records\<rparr>"

text \<open>\<^verbatim>\<open>df.drop(labels, axis=1)\<close>: KeyError when a label is no column.\<close>

definition drop_columns :: "string list \<Rightarrow> frame \<Rightarrow> py_error + frame" where
  "drop_columns labels df =
     (if set labels \<subseteq> set (columns df)
      then Inr \<lparr>columns = filter (\<lambda>c. c \<notin> set labels) (columns df),
                rows = map (filter (\<lambda>(k, v). k \<notin> set labels)) (rows df)\<rparr>
      else Inl KeyError)"

text \<open>\<^verbatim>\<open>pd.concat([a, b])\<close> followed by \<^verbatim>\<open>reset_index\<close>: the rows of \<open>b\<close> after the rows of
  \<open>a\<close>, over the union of the columns; what a row lacks is missing.\<close>

definition concat_frames :: "frame \<Rightarrow> frame \<Rightarrow> frame" where
  "concat_frames a b =
     \<lparr>columns = columns a @ filter (\<lambda>c. c \<notin> set (columns a)) (columns b),
      rows = rows a @ rows b\<rparr>"

text \<open>\<^verbatim>\<open>df.fillna(0)\<close>\<close>

definition fillna0 :: "frame \<Rightarrow> frame" where
  "fillna0 df =
     \<lparr>columns = columns df,
      rows = map (\<lambda>r. map (\<lambda>c. (c, case cell_at r c of NaN \<Rightarrow> Num 0 | v \<Rightarrow> v)) (columns df))
               (rows df)\<rparr>"

section \<open>Positions (data_cleaning.py)\<close>

text \<open>The assignments of \<^verbatim>\<open>condense_positions\<close>, lines 117-131, in their order.\<close>

definition POSITION_CHANGES :: "(string \<times> string) list" where
  "POSITION_CHANGES =
     [(''OLB'', ''LB''), (''ILB'', ''LB''), (''MLB'', ''LB''), (''DT'', ''DL''), (''DE'', ''DL''),
      (''SS'', ''S''), (''FS'', ''S''), (''FB'', ''RB''), (''RB-WR'', ''RB''), (''QB/TE'', ''QB''),
      (''G'', ''OL''), (''T'', ''OL''), (''C'', ''OL''), (''OT'', ''OL''), (''DB'', ''CB'')]"

text \<open>\<^verbatim>\<open>df.loc[(df["Pos"] == old), "Pos"] = new\<close> on one row.\<close>

definition change_pos :: "row \<Rightarrow> string \<times> string \<Rightarrow> row" where
  "change_pos r ch =
     (if cell_at r ''Pos'' = Str (fst ch) then AList.update ''Pos'' (Str (snd ch)) r else r)"

text \<open>
  \<^verbatim>\<open>condense_positions\<close>, data_cleaning.py 96-133: rows with an empty or missing cap hit
  and long snappers are dropped, then the positions are rewritten. Reading a column the
  frame does not have raises KeyError.
\<close>

definition condense_positions :: "frame \<Rightarrow> py_error + frame" where
  "condense_positions df =
     (if ''Cap Hit'' \<notin> set (columns df) then Inl KeyError
      else
        (let with_cap = filter (\<lambda>r. cell_at r ''Cap Hit'' \<noteq> Str [] \<and> cell_at r ''Cap Hit'' \<noteq> NaN)
                          (rows df)
         in if ''Pos'' \<notin> set (columns df) then Inl KeyError
            else
              (let no_ls = filter (\<lambda>r. cell_at r ''Pos'' \<noteq> Str ''LS'') with_cap
               in Inr \<lparr>columns = columns df,
                       rows = map (\<lambda>r. foldl change_pos r POSITION_CHANGES) no_ls\<rparr>)))"

section \<open>Team statistics and the projection (team_projections.py)\<close>

definition AVERAGED_STATS :: "string list" where
  "AVERAGED_STATS =
     [''ANY/A'', ''AY/A'', ''Cmp%'', ''Int%'', ''Kic_KOAvg'', ''Kic_Y/Rt'', ''Lng'', ''NY/A'',
      ''Pts/G'', ''Pun_Lng'', ''Pun_Y/P'', ''Pun_Y/R'', ''Rus_Y/A'', ''Sco_Lng'', ''Sk%'', ''TD%'',
      ''Y/A'', ''Y/C'', ''Y/G'', ''Kic_Lng'', ''Rate'']"

text \<open>
  The numbers of a column, missing cells skipped, as \<^verbatim>\<open>Series.sum()\<close> and \<^verbatim>\<open>Series.mean()\<close>
  skip them. A text cell makes both aggregations of \<^verbatim>\<open>get_team_stats\<close> raise TypeError: the
  sum of texts is a text, which cannot be multiplied by \<^verbatim>\<open>16/11\<close>, and the mean of texts
  is refused (pandas accepts it only when the texts, joined, read as one number; such
  text is not distinguished here).
\<close>

fun numbers :: "cell list \<Rightarrow> py_error + rat list" where
  "numbers [] = Inr []"
| "numbers (NaN # cs) = numbers cs"
| "numbers (Num x # cs) = (case numbers cs of Inl e \<Rightarrow> Inl e | Inr xs \<Rightarrow> Inr (x # xs))"
| "numbers (Str s # cs) = Inl TypeError"

definition series_sum :: "cell list \<Rightarrow> py_error + rat" where
  "series_sum cs = (case numbers cs of Inl e \<Rightarrow> Inl e | Inr xs \<Rightarrow> Inr (sum_list xs))"

definition series_mean :: "cell list \<Rightarrow> py_error + cell" where
  "series_mean cs =
     (case numbers cs of
        Inl e \<Rightarrow> Inl e
      | Inr xs \<Rightarrow> Inr (if xs = [] then NaN else Num (sum_list xs / of_nat (length xs))))"

text \<open>\<^verbatim>\<open>round(v, 1)\<close> of a mean: NaN stays NaN.\<close>

definition round1_cell :: "cell \<Rightarrow> cell" where
  "round1_cell c = (case c of Num x \<Rightarrow> Num (py_round1 x) | v \<Rightarrow> v)"

text \<open>The value \<^verbatim>\<open>get_team_stats\<close> stores for a label that is a column of the roster
  (lines 88-92).\<close>

definition team_stat :: "frame \<Rightarrow> string \<Rightarrow> py_error + cell" where
  "team_stat gm_team label =
     (if label \<in> set AVERAGED_STATS
      then (case series_mean (column gm_team label) of
              Inl e \<Rightarrow> Inl e
            | Inr m \<Rightarrow> Inr (round1_cell m))
      else (case series_sum (column gm_team label) of
              Inl e \<Rightarrow> Inl e
            | Inr s \<Rightarrow> Inr (Num (s * (16 / 11)))))"

text \<open>The loop of \<^verbatim>\<open>get_team_stats\<close>, lines 84-94, over the labels that are left, with the
  dict \<^verbatim>\<open>gm_team_stats\<close> and the list \<^verbatim>\<open>empty_cols\<close> built so far.\<close>

fun team_stats_loop ::
  "string list \<Rightarrow> frame \<Rightarrow> row \<Rightarrow> string list \<Rightarrow> py_error + (row \<times> string list)" where
  "team_stats_loop [] gm_team gm_team_stats empty_cols = Inr (gm_team_stats, empty_cols)"
| "team_stats_loop (label # labels) gm_team gm_team_stats empty_cols =
     (if label \<in> set (columns gm_team)
      then (case team_stat gm_team label of
              Inl e \<Rightarrow> Inl e
            | Inr v \<Rightarrow>
                team_stats_loop labels gm_team (AList.update label v gm_team_stats) empty_cols)
      else team_stats_loop labels gm_team gm_team_stats (empty_cols @ [label]))"

text \<open>
  \<^verbatim>\<open>get_team_stats\<close>, team_projections.py 62-100. \<^verbatim>\<open>pd.DataFrame.from_dict\<close> of the dict of
  one-element lists is a frame of one row (of no row when the dict is empty);
  \<^verbatim>\<open>empty_cols.remove('W-L%')\<close> raises ValueError when the label is not in the list.
\<close>

definition get_team_stats :: "frame \<Rightarrow> frame \<Rightarrow> py_error + (string list \<times> frame)" where
  "get_team_stats team_data gm_team =
     (case team_stats_loop (columns team_data) gm_team [] [] of
        Inl e \<Rightarrow> Inl e
      | Inr (gm_team_stats, empty_cols) \<Rightarrow>
          if ''W-L%'' \<in> set empty_cols
          then Inr (remove1 ''W-L%'' empty_cols,
                    \<lparr>columns = map fst gm_team_stats,
                     rows = (if gm_team_stats = [] then [] else [gm_team_stats])\<rparr>)
          else Inl ValueError)"

text \<open>
  The linear regression of scikit-learn is a parameter: \<open>fit\<close> takes the matrix of
  features and the labels, \<open>predict\<close> the fitted model and one row of features. Either may
  raise.
\<close>

record 'm estimator =
  fit :: "cell list list \<Rightarrow> cell list \<Rightarrow> py_error + 'm"
  predict :: "'m \<Rightarrow> cell list \<Rightarrow> py_error + rat"

definition x_cols :: "frame \<Rightarrow> string list" where
  "x_cols team_data = filter (\<lambda>x. x \<noteq> ''W-L%'') (columns team_data)"

definition features :: "frame \<Rightarrow> cell list list" where
  "features team_data = map (\<lambda>r. map (cell_at r) (x_cols team_data)) (rows team_data)"

text \<open>
  \<^verbatim>\<open>run_ml\<close>, team_projections.py 142-174. \<^verbatim>\<open>disp_regress\<close> fits the whole table and prints
  the model; then the model is fitted on all rows but the last and the last row is scored.
  \<^verbatim>\<open>x[-1]\<close> raises IndexError on a table of no rows, and reading the column \<^verbatim>\<open>W-L%\<close> raises
  KeyError when there is none.
\<close>

definition run_ml :: "'m estimator \<Rightarrow> frame \<Rightarrow> py_error + int" where
  "run_ml reg team_data =
     (if ''W-L%'' \<notin> set (columns team_data) then Inl KeyError
      else
        (let x = features team_data;
             y = column team_data ''W-L%''
         in (case fit reg x y of
               Inl e \<Rightarrow> Inl e
             | Inr shown \<Rightarrow>
                (if x = [] then Inl IndexError
                 else (case fit reg (butlast x) (butlast y) of
                         Inl e \<Rightarrow> Inl e
                       | Inr model \<Rightarrow>
                          (case predict reg model (last x) of
                             Inl e \<Rightarrow> Inl e
                           | Inr y_pred \<Rightarrow> Inr (py_round (y_pred * 17))))))))"

text \<open>
  \<^verbatim>\<open>analyze_team\<close>, team_projections.py 177-211. \<open>agg_teams\<close> is the content of the file
  \<^verbatim>\<open>agg_teams.csv\<close>. \<open>all_teams\<close> is the table handed to \<^verbatim>\<open>run_ml\<close> (lines 192-205).
\<close>

definition all_teams :: "frame \<Rightarrow> frame \<Rightarrow> py_error + frame" where
  "all_teams gm_team agg_teams =
     (case condense_positions gm_team of
        Inl e \<Rightarrow> Inl e
      | Inr gm \<Rightarrow>
         (case drop_columns [''Team'', ''Season''] agg_teams of
            Inl e \<Rightarrow> Inl e
          | Inr team_data \<Rightarrow>
             (case get_team_stats team_data gm of
                Inl e \<Rightarrow> Inl e
              | Inr (empty_cols, gm_team_stats) \<Rightarrow>
                 (case drop_columns empty_cols team_data of
                    Inl e \<Rightarrow> Inl e
                  | Inr team_data' \<Rightarrow> Inr (fillna0 (concat_frames team_data' gm_team_stats))))))"

definition analyze_team :: "'m estimator \<Rightarrow> frame \<Rightarrow> frame \<Rightarrow> py_error + int" where
  "analyze_team reg gm_team agg_teams =
     (case all_teams gm_team agg_teams of
        Inl e \<Rightarrow> Inl e
      | Inr table \<Rightarrow> run_ml reg table)"

text \<open>
  \<^verbatim>\<open>update_machinelearning\<close>, dashboard.py 693-700: the callback returns the clamped
  projection when the button fired it, and nothing (\<open>None\<close>) otherwise.
\<close>

definition update_machinelearning ::
  "'m estimator \<Rightarrow> frame \<Rightarrow> string \<Rightarrow> row list \<Rightarrow> py_error + int option" where
  "update_machinelearning reg agg_teams triggered_id team_dict =
     (let team_data = from_dict team_dict
      in if triggered_id = ''button''
         then (case analyze_team reg team_data agg_teams of
                 Inl e \<Rightarrow> Inl e
               | Inr wins \<Rightarrow> Inr (Some (min (max wins 0) 16)))
         else Inr None)"

section \<open>The radar chart's conversion (dashboard.py 400-415)\<close>





section \<open>Invariants of the session\<close>

text \<open>The team's salaries in tenths of a million.\<close>

definition cap_tenths :: "(int \<times> player) list \<Rightarrow> nat" where
  "cap_tenths team = sum_list (map (\<lambda>(l, p). Cap_Hit p) team)"

text \<open>
  What \<^verbatim>\<open>add_players\<close> keeps (\<open>ledger_inv\<close>): the team's labels are distinct, every row of
  the team has Status \<^verbatim>\<open>REMOVE\<close> and the cap hit of the row of \<^verbatim>\<open>player_df\<close> it was copied
  from, and the display is the cap less the team's salaries and not negative. With the
  Status column of \<^verbatim>\<open>player_df\<close> as \<^verbatim>\<open>modify_button\<close> leaves it, this is \<open>roster_inv\<close>.
\<close>

definition ledger_inv :: "dashboard \<Rightarrow> bool" where
  "ledger_inv st \<longleftrightarrow>
     distinct (map fst (team_df st)) \<and>
     (\<forall>(l, r) \<in> set (team_df st).
        Status r = ''REMOVE'' \<and> (\<exists>p. player_df st l = Some p \<and> Cap_Hit p = Cap_Hit r)) \<and>
     salary_display st = SALARY - salaries (team_df st) \<and>
     0 \<le> salary_display st"

definition roster_inv :: "dashboard \<Rightarrow> bool" where
  "roster_inv st \<longleftrightarrow>
     distinct (map fst (team_df st)) \<and>
     (\<forall>(l, r) \<in> set (team_df st).
        Status r = ''REMOVE'' \<and> (\<exists>p. player_df st l = Some p \<and> Cap_Hit p = Cap_Hit r)) \<and>
     (\<forall>l p. player_df st l = Some p \<longrightarrow>
        Status p = (if l \<in> fst ` set (team_df st) then ''REMOVE'' else ''ADD'')) \<and>
     salary_display st = SALARY - salaries (team_df st) \<and>
     0 \<le> salary_display st"

section \<open>Examples and the formulas of the specification\<close>

text \<open>The specification's example: a cap of 150, a player of salary 20 and one of 140.\<close>

definition example_pool :: "int \<rightharpoonup> player" where
  "example_pool =
     [1 \<mapsto> \<lparr>Status = ''ADD'', Player = ''A'', Pos = ''QB'', Cap_Hit = 200\<rparr>,
      2 \<mapsto> \<lparr>Status = ''ADD'', Player = ''B'', Pos = ''WR'', Cap_Hit = 1400\<rparr>]"

text \<open>A click on the Status cell of the row \<open>l\<close>, in the table of all players and in the
  team's table.\<close>

definition status_click :: "int \<Rightarrow> click" where
  "status_click l =
     \<lparr>triggered = ''datatable-interactivity'',
      table_cell = Some \<lparr>row_id = l, column_id = ''Status''\<rparr>,
      team_cell = None\<rparr>"

definition team_click :: "int \<Rightarrow> click" where
  "team_click l =
     \<lparr>triggered = ''team_datatable'',
      table_cell = None,
      team_cell = Some \<lparr>row_id = l, column_id = ''Status''\<rparr>\<rparr>"

text \<open>The cell \<^verbatim>\<open>add_players\<close> acts on.\<close>

definition clicked :: "click \<Rightarrow> active_cell option" where
  "clicked ev = (if triggered ev = ''team_datatable'' then team_cell ev else table_cell ev)"

text \<open>
  The budget as the specification words it, for comparison: the arithmetic is done on the
  salaries in full precision (here in dollars), and the result is rounded to one decimal
  when it is shown.
\<close>

definition full_precision_budget :: "nat list \<Rightarrow> rat" where
  "full_precision_budget ds = py_round1 (SALARY - sum_list (map (\<lambda>d. of_nat d / 1000000) ds))"

text \<open>Two scraped players of 1,040,000 dollars each and one of 1,050,000 dollars, and
  their rows after \<^verbatim>\<open>convert_salaries\<close>.\<close>

definition example_scraped :: "(int \<times> scraped_player) list" where
  "example_scraped =
     [(0, \<lparr>Status = [], Player = ''C'', Pos = ''K'', Cap_Hit = Str ''$1,040,000''\<rparr>),
      (1, \<lparr>Status = [], Player = ''D'', Pos = ''P'', Cap_Hit = Str ''$1,040,000''\<rparr>),
      (2, \<lparr>Status = [], Player = ''E'', Pos = ''S'', Cap_Hit = Str ''$1,050,000''\<rparr>)]"

definition example_cleaned :: "(int \<times> player) list" where
  "example_cleaned =
     [(0, \<lparr>Status = [], Player = ''C'', Pos = ''K'', Cap_Hit = 10\<rparr>),
      (1, \<lparr>Status = [], Player = ''D'', Pos = ''P'', Cap_Hit = 10\<rparr>),
      (2, \<lparr>Status = [], Player = ''E'', Pos = ''S'', Cap_Hit = 11\<rparr>)]"

text \<open>
  A small history (the content of \<^verbatim>\<open>agg_teams.csv\<close>) and a team of one player, as the
  team table hands it to \<^verbatim>\<open>update_machinelearning\<close>: the player has 11 yards and no
  completion percentage. \<^verbatim>\<open>Sk\<close> is a column of the history that the roster does not have.
\<close>

definition example_agg_teams :: frame where
  "example_agg_teams =
     \<lparr>columns = [''Team'', ''Season'', ''Cmp%'', ''Yds'', ''Sk'', ''W-L%''],
      rows =
        [[(''Team'', Str ''NWE''), (''Season'', Num 2019), (''Cmp%'', Num (125 / 2)),
          (''Yds'', Num 5000), (''Sk'', Num 40), (''W-L%'', Num (3 / 4))],
         [(''Team'', Str ''NYJ''), (''Season'', Num 2019), (''Cmp%'', Num 58),
          (''Yds'', Num 4000), (''Sk'', Num 30), (''W-L%'', Num (1 / 4))]]\<rparr>"

definition example_team_dict :: "row list" where
  "example_team_dict =
     [[(''Status'', Str ''REMOVE''), (''Player'', Str ''A''), (''Pos'', Str ''OLB''),
       (''Cap Hit'', Str ''$2.0m''), (''Cmp%'', NaN), (''Yds'', Num 11)]]"

text \<open>The history without \<^verbatim>\<open>Team\<close> and \<^verbatim>\<open>Season\<close>, and the roster after
  \<^verbatim>\<open>condense_positions\<close>, as \<^verbatim>\<open>analyze_team\<close> hands them to \<^verbatim>\<open>get_team_stats\<close>.\<close>

definition example_team_data :: frame where
  "example_team_data =
     \<lparr>columns = [''Cmp%'', ''Yds'', ''Sk'', ''W-L%''],
      rows =
        [[(''Cmp%'', Num (125 / 2)), (''Yds'', Num 5000), (''Sk'', Num 40), (''W-L%'', Num (3 / 4))],
         [(''Cmp%'', Num 58), (''Yds'', Num 4000), (''Sk'', Num 30), (''W-L%'', Num (1 / 4))]]\<rparr>"

definition example_gm_team :: frame where
  "example_gm_team =
     \<lparr>columns = [''Status'', ''Player'', ''Pos'', ''Cap Hit'', ''Cmp%'', ''Yds''],
      rows =
        [[(''Status'', Str ''REMOVE''), (''Player'', Str ''A''), (''Pos'', Str ''LB''),
          (''Cap Hit'', Str ''$2.0m''), (''Cmp%'', NaN), (''Yds'', Num 11)]]\<rparr>"

text \<open>An estimator that fits anything and predicts the same fraction for every row.\<close>

definition constant_estimator :: "rat \<Rightarrow> unit estimator" where
  "constant_estimator y = \<lparr>fit = (\<lambda>x labels. Inr ()), predict = (\<lambda>model x. Inr y)\<rparr>"

text \<open>
  The season's wins as the specification words them, for comparison: the fraction times
  the games of a season, 16, rounded and then clamped to the season.
\<close>

definition spec_season_wins :: "rat \<Rightarrow> int" where
  "spec_season_wins win_fraction = min (max (py_round (win_fraction * 16)) 0) 16"

text \<open>
  The adjustment of a summed statistic as the specification words it, for comparison:
  the raw sum times 16 over the games observed, and a failure when no game was observed.
\<close>

datatype spec_error = ZeroGamesError

definition spec_adjusted :: "rat \<Rightarrow> nat \<Rightarrow> spec_error + rat" where
  "spec_adjusted raw_sum observed_games =
     (if observed_games = 0 then Inl ZeroGamesError
      else Inr (raw_sum * (16 / of_nat observed_games)))"

text \<open>A pool of one player whose position is none of the known ones.\<close>

definition example_unknown_position :: frame where
  "example_unknown_position =
     \<lparr>columns = [''Player'', ''Pos'', ''Cap Hit''],
      rows = [[(''Player'', Str ''E''), (''Pos'', Str ''XX''), (''Cap Hit'', Str ''$1,000,000'')]]\<rparr>"




text \<open>A roster whose only player has neither yards nor a completion percentage.\<close>

definition example_no_stats :: frame where
  "example_no_stats =
     \<lparr>columns = [''Pos'', ''Cap Hit'', ''Cmp%'', ''Yds''],
      rows = [[(''Pos'', Str ''K''), (''Cap Hit'', Str ''$1.0m''), (''Cmp%'', NaN), (''Yds'', NaN)]]\<rparr>"

section \<open>Properties of the roster and the budget\<close>

lemma py_round_of_int: "py_round (of_int k) = k"
  by (simp add: py_round_def)

lemma py_round1_tenths: "py_round1 (of_int k / 10) = of_int k / 10"
  by (simp add: py_round1_def py_round_of_int)

lemma salaries_tenths: "salaries team = of_int (int (cap_tenths team)) / 10"
  by (induction team) (auto simp: salaries_def cap_tenths_def cap_hit_float_def add_divide_distrib)

lemma mark_remove_apply:
  "mark_remove ids df l =
     (if l \<in> set ids then map_option (\<lambda>p. p\<lparr>Status := ''REMOVE''\<rparr>) (df l) else df l)"
proof (induction ids arbitrary: df)
  case Nil
  show ?case by simp
next
  case (Cons i ids)
  show ?case
    by (cases "df i") (auto simp: Cons.IH option.map_comp comp_def)
qed

lemma modify_button_player_df:
  "player_df (modify_button st) l =
     map_option (\<lambda>p. p\<lparr>Status := (if l \<in> fst ` set (team_df st) then ''REMOVE'' else ''ADD'')\<rparr>)
       (player_df st l)"
  by (simp add: modify_button_def Let_def mark_remove_apply option.map_comp comp_def)

lemma roster_inv_initial: "roster_inv (initial_dashboard pool)"
  by (auto simp: roster_inv_def initial_dashboard_def salaries_def SALARY_def)

lemma cap_tenths_filter:
  "distinct (map fst team) \<Longrightarrow> (l, r) \<in> set team \<Longrightarrow>
   cap_tenths (filter (\<lambda>(k, p). k \<noteq> l) team) + Cap_Hit r = cap_tenths team"
proof (induction team)
  case Nil
  then show ?case by simp
next
  case (Cons a team)
  obtain k q where a: "a = (k, q)" by (cases a)
  show ?case
  proof (cases "k = l")
    case True
    with Cons.prems a have "q = r" by (auto simp: image_iff rev_image_eqI)
    moreover from Cons.prems a True have "filter (\<lambda>(k, p). k \<noteq> l) team = team"
      by (auto simp: filter_id_conv image_iff)
    ultimately show ?thesis using a True by (simp add: cap_tenths_def)
  next
    case False
    with Cons a show ?thesis by (auto simp: cap_tenths_def)
  qed
qed

lemma cap_tenths_set_remove: "cap_tenths (set_remove team) = cap_tenths team"
  by (induction team) (auto simp: cap_tenths_def set_remove_def)

lemma fst_set_remove: "map fst (set_remove team) = map fst team"
  by (induction team) (auto simp: set_remove_def)

lemma roster_inv_ledger: "roster_inv st \<Longrightarrow> ledger_inv st"
  by (simp add: roster_inv_def ledger_inv_def)

lemma modify_button_team [simp]: "team_df (modify_button st) = team_df st"
  by (simp add: modify_button_def Let_def)

lemma modify_button_salary [simp]: "salary_display (modify_button st) = salary_display st"
  by (simp add: modify_button_def Let_def)

lemma modify_button_inv:
  assumes "ledger_inv st"
  shows "roster_inv (modify_button st)"
proof -
  have rows: "\<And>l r. (l, r) \<in> set (team_df st) \<Longrightarrow>
      Status r = ''REMOVE'' \<and> (\<exists>p. player_df st l = Some p \<and> Cap_Hit p = Cap_Hit r)"
    using assms by (auto simp: ledger_inv_def)
  have "\<exists>p. player_df (modify_button st) l = Some p \<and> Cap_Hit p = Cap_Hit r"
    if "(l, r) \<in> set (team_df st)" for l r
    using rows [OF that] by (auto simp: modify_button_player_df)
  moreover have "Status p = (if l \<in> fst ` set (team_df st) then ''REMOVE'' else ''ADD'')"
    if "player_df (modify_button st) l = Some p" for l p
    using that by (force simp: modify_button_player_df)
  ultimately show ?thesis
    using assms rows unfolding roster_inv_def ledger_inv_def
    by (simp add: case_prod_beta')
qed


lemma set_remove_id:
  "\<forall>(l, r) \<in> set team. Status r = ''REMOVE'' \<Longrightarrow> set_remove team = team"
  by (induction team) (auto simp: set_remove_def)

lemma add_players_inv:
  assumes inv: "roster_inv st"
    and res: "add_players tid c0 tc st = Inr (st', out)"
  shows "ledger_inv st' \<and> (out = None \<longrightarrow> st' = st)"
proof -
  define cell where "cell = (if tid = ''team_datatable'' then tc else c0)"
  have led: "ledger_inv st" using inv by (rule roster_inv_ledger)
  have disp: "salary_display st = SALARY - salaries (team_df st)" and nonneg: "0 \<le> salary_display st"
    and dist: "distinct (map fst (team_df st))"
    using led by (auto simp: ledger_inv_def)
  have rows: "\<And>l r. (l, r) \<in> set (team_df st) \<Longrightarrow>
      Status r = ''REMOVE'' \<and> (\<exists>p. player_df st l = Some p \<and> Cap_Hit p = Cap_Hit r)"
    using led by (auto simp: ledger_inv_def)
  have stat: "\<And>l p. player_df st l = Some p \<Longrightarrow>
      Status p = (if l \<in> fst ` set (team_df st) then ''REMOVE'' else ''ADD'')"
    using inv by (auto simp: roster_inv_def)
  have same: "set_remove (team_df st) = team_df st"
    using rows by (intro set_remove_id) auto
  have round_disp: "py_round1 (salary_display st) = salary_display st"
    unfolding disp salaries_tenths SALARY_def
    using py_round1_tenths [of "1500 - int (cap_tenths (team_df st))"]
    by (simp add: diff_divide_distrib)
  show ?thesis
  proof (cases cell)
    case None
    with res led show ?thesis
      by (auto simp: add_players_def Let_def cell_def)
  next
    case (Some c)
    show ?thesis
    proof (cases "column_id c = ''Status''")
      case False
      with res Some led show ?thesis
        by (auto simp: add_players_def Let_def cell_def)
    next
      case True
      from res Some True obtain p where p: "player_df st (row_id c) = Some p"
        by (cases "player_df st (row_id c)") (auto simp: add_players_def Let_def cell_def)
      show ?thesis
      proof (cases "row_id c \<in> fst ` set (team_df st)")
        case on_team: True
        then obtain r where r: "(row_id c, r) \<in> set (team_df st)" by auto
        from rows [OF r] p have cap: "Cap_Hit r = Cap_Hit p" by auto
        have st_p: "Status p = ''REMOVE''" using stat [OF p] on_team by simp
        let ?team = "filter (\<lambda>(k, q). k \<noteq> row_id c) (team_df st)"
        have sum: "cap_tenths ?team + Cap_Hit p = cap_tenths (team_df st)"
          using cap_tenths_filter [OF dist r] cap by simp
        have st': "st' = st\<lparr>team_df := set_remove ?team,
            salary_display := py_round1 (SALARY + cap_hit_float p - salaries (team_df st))\<rparr>"
          using res Some True p st_p on_team
          by (auto simp: add_players_def Let_def cell_def drop_label_def)
        have out: "out \<noteq> None"
          using res Some True p st_p on_team
          by (auto simp: add_players_def Let_def cell_def drop_label_def)
        have val: "SALARY + cap_hit_float p - salaries (team_df st)
            = of_int (1500 - int (cap_tenths ?team)) / 10"
          using sum unfolding salaries_tenths SALARY_def cap_hit_float_def
          by (simp add: field_simps flip: sum) 
        have "salary_display st' = py_round1 (SALARY + cap_hit_float p - salaries (team_df st))"
          by (simp add: st')
        also have "\<dots> = of_int (1500 - int (cap_tenths ?team)) / 10"
          unfolding val by (rule py_round1_tenths)
        also have "\<dots> = SALARY - salaries (team_df st')"
          by (simp add: st' salaries_tenths cap_tenths_set_remove SALARY_def diff_divide_distrib)
        finally have eq: "salary_display st' = SALARY - salaries (team_df st')" .
        moreover have "0 \<le> salary_display st'"
        proof -
          have "salaries ?team \<le> salaries (team_df st)"
            using sum unfolding salaries_tenths by (simp add: divide_right_mono)
          moreover have "salary_display st' = SALARY - salaries ?team"
            using eq by (simp add: st' salaries_tenths cap_tenths_set_remove)
          ultimately show ?thesis using nonneg disp by simp
        qed
        moreover have "distinct (map fst (team_df st'))"
          using dist by (simp add: st' fst_set_remove distinct_map_filter)
        moreover have "Status q = ''REMOVE'' \<and> (\<exists>p. player_df st' l = Some p \<and> Cap_Hit p = Cap_Hit q)"
          if "(l, q) \<in> set (team_df st')" for l q
        proof -
          from that obtain q0 where "(l, q0) \<in> set (team_df st)" and "q = q0\<lparr>Status := ''REMOVE''\<rparr>"
            by (auto simp: st' set_remove_def)
          with rows [of l q0] show ?thesis by (auto simp: st')
        qed
        ultimately show ?thesis using out by (auto simp: ledger_inv_def)
      next
        case off_team: False
        have st_p: "Status p = ''ADD''" using stat [OF p] off_team by simp
        show ?thesis
        proof (cases "SALARY - salaries (team_df st) - cap_hit_float p < 0")
          case over: True
          have "st' = st"
            using res Some True p st_p over same round_disp
            by (auto simp: add_players_def Let_def cell_def)
          with led show ?thesis by simp
        next
          case fits: False
          let ?team = "team_df st @ [(row_id c, p)]"
          have st': "st' = st\<lparr>team_df := set_remove ?team,
              salary_display := py_round1 (SALARY - salaries (team_df st) - cap_hit_float p)\<rparr>"
            using res Some True p st_p fits
            by (auto simp: add_players_def Let_def cell_def)
          have out: "out \<noteq> None"
            using res Some True p st_p fits
            by (auto simp: add_players_def Let_def cell_def)
          have sum: "cap_tenths ?team = cap_tenths (team_df st) + Cap_Hit p"
            by (simp add: cap_tenths_def)
          have val: "SALARY - salaries (team_df st) - cap_hit_float p
              = of_int (1500 - int (cap_tenths ?team)) / 10"
            unfolding salaries_tenths SALARY_def cap_hit_float_def sum
            by (simp add: field_simps)
          have "salary_display st' = py_round1 (SALARY - salaries (team_df st) - cap_hit_float p)"
            by (simp add: st')
          also have "\<dots> = of_int (1500 - int (cap_tenths ?team)) / 10"
            unfolding val by (rule py_round1_tenths)
          finally have new: "salary_display st' = of_int (1500 - int (cap_tenths ?team)) / 10" .
          have eq: "salary_display st' = SALARY - salaries (team_df st')"
            unfolding new
            by (simp add: st' salaries_tenths cap_tenths_set_remove SALARY_def diff_divide_distrib)
          moreover have "0 \<le> salary_display st'"
            using fits unfolding new val by simp
          moreover have "distinct (map fst (team_df st'))"
            using dist off_team by (simp add: st' fst_set_remove)
          moreover have "Status q = ''REMOVE'' \<and> (\<exists>p. player_df st' l = Some p \<and> Cap_Hit p = Cap_Hit q)"
            if "(l, q) \<in> set (team_df st')" for l q
          proof -
            from that obtain q0 where q0: "(l, q0) \<in> set ?team" and "q = q0\<lparr>Status := ''REMOVE''\<rparr>"
              by (auto simp: st' set_remove_def)
            with rows [of l q0] p show ?thesis by (auto simp: st')
          qed
          ultimately show ?thesis using out by (auto simp: ledger_inv_def)
        qed
      qed
    qed
  qed
qed

lemma on_click_inv: "roster_inv st \<Longrightarrow> roster_inv (on_click st ev)"
proof -
  assume inv: "roster_inv st"
  show ?thesis
  proof (cases "add_players (triggered ev) (table_cell ev) (team_cell ev) st")
    case (Inl e)
    with inv show ?thesis by (simp add: on_click_def)
  next
    case (Inr res)
    obtain st' out where res: "res = (st', out)" by (cases res)
    from add_players_inv [OF inv Inr [unfolded res]]
    have led: "ledger_inv st'" and same: "out = None \<longrightarrow> st' = st" by auto
    show ?thesis
    proof (cases out)
      case None
      with Inr res same inv show ?thesis by (simp add: on_click_def)
    next
      case (Some a)
      with Inr res modify_button_inv [OF led] show ?thesis by (simp add: on_click_def)
    qed
  qed
qed

lemma session_inv: "roster_inv (session pool evs)"
proof -
  have "roster_inv st \<Longrightarrow> roster_inv (foldl on_click st evs)" for st
    by (induction evs arbitrary: st) (simp_all add: on_click_inv)
  then show ?thesis by (simp add: session_def roster_inv_initial)
qed

lemma py_round_nearest:
  assumes "\<bar>x - of_int k\<bar> < 1 / 2"
  shows "py_round x = k"
proof (cases "of_int k \<le> x")
  case True
  with assms have "\<lfloor>x\<rfloor> = k" by (auto simp: floor_eq_iff)
  with assms True show ?thesis by (simp add: py_round_def Let_def)
next
  case False
  with assms have fl: "\<lfloor>x\<rfloor> = k - 1" by (auto simp: floor_eq_iff)
  from assms False have "1 / 2 < x - of_int (k - 1)" by auto
  with fl show ?thesis by (simp add: py_round_def Let_def)
qed

lemma roster_inv_round:
  assumes "roster_inv st"
  shows "py_round1 (salary_display st) = salary_display st"
proof -
  have "salary_display st = of_int (1500 - int (cap_tenths (team_df st))) / 10"
    using assms by (simp add: roster_inv_def salaries_tenths SALARY_def diff_divide_distrib)
  then show ?thesis by (simp only: py_round1_tenths)
qed

lemma add_players_rejected:
  assumes inv: "roster_inv st"
    and cell: "(if tid = ''team_datatable'' then tc else c0) = Some c"
    and col: "column_id c = ''Status''"
    and p: "player_df st (row_id c) = Some p"
    and off: "row_id c \<notin> fst ` set (team_df st)"
    and over: "salary_display st - cap_hit_float p < 0"
  shows "add_players tid c0 tc st = Inr (st, Some (map snd (team_df st), salary_display st))"
proof -
  have st_p: "Status p = ''ADD''" using inv p off by (auto simp: roster_inv_def)
  have disp: "salary_display st = SALARY - salaries (team_df st)"
    using inv by (simp add: roster_inv_def)
  have same: "set_remove (team_df st) = team_df st"
    using inv by (intro set_remove_id) (auto simp: roster_inv_def)
  note round_disp = roster_inv_round [OF inv]
  from over have "SALARY - salaries (team_df st) - cap_hit_float p < 0" by (simp add: disp)
  then show ?thesis
    using cell col p st_p same round_disp by (simp add: add_players_def Let_def)
qed

lemma add_players_removes:
  assumes inv: "roster_inv st"
    and cell: "(if tid = ''team_datatable'' then tc else c0) = Some c"
    and col: "column_id c = ''Status''"
    and on: "row_id c \<in> fst ` set (team_df st)"
  shows "\<exists>st' out. add_players tid c0 tc st = Inr (st', Some out) \<and>
           team_df st' = filter (\<lambda>(k, q). k \<noteq> row_id c) (team_df st)"
proof -
  from on obtain r where r: "(row_id c, r) \<in> set (team_df st)" by auto
  with inv obtain p where p: "player_df st (row_id c) = Some p"
    by (auto simp: roster_inv_def)
  have st_p: "Status p = ''REMOVE''" using inv p on by (auto simp: roster_inv_def)
  have "\<forall>(l, q) \<in> set (filter (\<lambda>(k, q). k \<noteq> row_id c) (team_df st)). Status q = ''REMOVE''"
    using inv by (auto simp: roster_inv_def)
  then have same: "set_remove (filter (\<lambda>(k, q). k \<noteq> row_id c) (team_df st))
      = filter (\<lambda>(k, q). k \<noteq> row_id c) (team_df st)"
    by (rule set_remove_id)
  show ?thesis
    using cell col p st_p on same by (simp add: add_players_def Let_def drop_label_def)
qed

lemma on_click_team:
  "add_players (triggered ev) (table_cell ev) (team_cell ev) st = Inr (st', out) \<Longrightarrow>
   team_df (on_click st ev) = team_df st' \<and> salary_display (on_click st ev) = salary_display st'"
  by (cases out) (simp_all add: on_click_def)

lemmas session_eval =
  session_def on_click_def add_players_def initial_dashboard_def status_click_def team_click_def
  Let_def salaries_def cap_hit_float_def SALARY_def set_remove_def modify_button_def drop_label_def

lemma example_team: "team_df (session example_pool [status_click 1]) =
    [(1, \<lparr>Status = ''REMOVE'', Player = ''A'', Pos = ''QB'', Cap_Hit = 200\<rparr>)]"
  by (simp add: session_eval example_pool_def)

lemma example_display: "salary_display (session example_pool [status_click 1]) = 130"
  by (simp add: session_eval example_pool_def py_round1_def py_round_def)

lemma example_other: "player_df (session example_pool [status_click 1]) 2 =
    Some \<lparr>Status = ''ADD'', Player = ''B'', Pos = ''WR'', Cap_Hit = 1400\<rparr>"
  by (simp add: session_eval example_pool_def)

text \<open>
  C1. After any sequence of clicks the displayed budget is the cap less the salaries of
  the team and is not negative; an add that would make it negative is rejected:
  \<^verbatim>\<open>add_players\<close> leaves the state as it is and returns the same team and the same budget,
  and so does the whole action. (Salaries and the budget are exact multiples of 0.1 here;
  floats are not modelled.)
\<close>

theorem budget_invariant:
  "salary_display (session pool evs) = SALARY - salaries (team_df (session pool evs)) \<and>
   0 \<le> salary_display (session pool evs) \<and>
   (\<forall>ev c p.
      clicked ev = Some c \<longrightarrow> column_id c = ''Status'' \<longrightarrow>
      player_df (session pool evs) (row_id c) = Some p \<longrightarrow>
      row_id c \<notin> fst ` set (team_df (session pool evs)) \<longrightarrow>
      salary_display (session pool evs) - cap_hit_float p < 0 \<longrightarrow>
        add_players (triggered ev) (table_cell ev) (team_cell ev) (session pool evs)
          = Inr (session pool evs,
                 Some (map snd (team_df (session pool evs)), salary_display (session pool evs))) \<and>
        team_df (on_click (session pool evs) ev) = team_df (session pool evs) \<and>
        salary_display (on_click (session pool evs) ev) = salary_display (session pool evs))"
proof -
  define st where "st = session pool evs"
  have inv: "roster_inv st" unfolding st_def by (rule session_inv)
  have "salary_display st = SALARY - salaries (team_df st)" and "0 \<le> salary_display st"
    using inv by (simp_all add: roster_inv_def)
  moreover have "add_players (triggered ev) (table_cell ev) (team_cell ev) st
          = Inr (st, Some (map snd (team_df st), salary_display st)) \<and>
        team_df (on_click st ev) = team_df st \<and>
        salary_display (on_click st ev) = salary_display st"
    if "clicked ev = Some c" "column_id c = ''Status''" "player_df st (row_id c) = Some p"
      "row_id c \<notin> fst ` set (team_df st)" "salary_display st - cap_hit_float p < 0"
    for ev c p
  proof -
    have "add_players (triggered ev) (table_cell ev) (team_cell ev) st
          = Inr (st, Some (map snd (team_df st), salary_display st))"
      using add_players_rejected [OF inv _ that(2-5)] that(1) by (simp add: clicked_def)
    with on_click_team [OF this] show ?thesis by simp
  qed
  ultimately show ?thesis unfolding st_def by blast
qed

theorem budget_invariant_witness:
  "salary_display (session example_pool [status_click 1]) = 130 \<and>
   add_players (triggered (status_click 2)) (table_cell (status_click 2))
       (team_cell (status_click 2)) (session example_pool [status_click 1])
     = Inr (session example_pool [status_click 1],
            Some ([\<lparr>Status = ''REMOVE'', Player = ''A'', Pos = ''QB'', Cap_Hit = 200\<rparr>], 130)) \<and>
   salary_display (on_click (session example_pool [status_click 1]) (status_click 2)) = 130"
proof -
  let ?st = "session example_pool [status_click 1]"
  let ?c = "\<lparr>row_id = 2, column_id = ''Status''\<rparr>"
  let ?p = "\<lparr>Status = ''ADD'', Player = ''B'', Pos = ''WR'', Cap_Hit = 1400\<rparr>"
  have c: "clicked (status_click 2) = Some ?c" by (simp add: clicked_def status_click_def)
  have off: "row_id ?c \<notin> fst ` set (team_df ?st)" by (simp add: example_team)
  have over: "salary_display ?st - cap_hit_float ?p < 0"
    by (simp add: example_display cap_hit_float_def)
  from budget_invariant [of example_pool "[status_click 1]"]
  have "\<forall>ev c p. clicked ev = Some c \<longrightarrow> column_id c = ''Status'' \<longrightarrow>
      player_df ?st (row_id c) = Some p \<longrightarrow> row_id c \<notin> fst ` set (team_df ?st) \<longrightarrow>
      salary_display ?st - cap_hit_float p < 0 \<longrightarrow>
        add_players (triggered ev) (table_cell ev) (team_cell ev) ?st
          = Inr (?st, Some (map snd (team_df ?st), salary_display ?st)) \<and>
        team_df (on_click ?st ev) = team_df ?st \<and>
        salary_display (on_click ?st ev) = salary_display ?st"
    by blast
  from this [rule_format, OF c _ _ off over] example_other
  show ?thesis by (simp add: example_team example_display)
qed

text \<open>
  C10. In every state the session reaches, every row of the team table has Status
  \<^verbatim>\<open>REMOVE\<close> and no label (player id) occurs twice in it; a click on the Status cell of a
  member, in either table, is taken as a removal: \<^verbatim>\<open>add_players\<close> returns the team without
  that row.
\<close>

theorem team_rows_marked_remove:
  "(\<forall>(l, r) \<in> set (team_df (session pool evs)). Status r = ''REMOVE'') \<and>
   distinct (map fst (team_df (session pool evs))) \<and>
   (\<forall>ev c.
      clicked ev = Some c \<longrightarrow> column_id c = ''Status'' \<longrightarrow>
      row_id c \<in> fst ` set (team_df (session pool evs)) \<longrightarrow>
        (\<exists>st' out.
           add_players (triggered ev) (table_cell ev) (team_cell ev) (session pool evs)
             = Inr (st', Some out) \<and>
           team_df st' = filter (\<lambda>(k, q). k \<noteq> row_id c) (team_df (session pool evs))) \<and>
        team_df (on_click (session pool evs) ev)
          = filter (\<lambda>(k, q). k \<noteq> row_id c) (team_df (session pool evs)))"
proof -
  define st where "st = session pool evs"
  have inv: "roster_inv st" unfolding st_def by (rule session_inv)
  have "\<forall>(l, r) \<in> set (team_df st). Status r = ''REMOVE''" and "distinct (map fst (team_df st))"
    using inv by (auto simp: roster_inv_def)
  moreover have "(\<exists>st' out.
           add_players (triggered ev) (table_cell ev) (team_cell ev) st = Inr (st', Some out) \<and>
           team_df st' = filter (\<lambda>(k, q). k \<noteq> row_id c) (team_df st)) \<and>
        team_df (on_click st ev) = filter (\<lambda>(k, q). k \<noteq> row_id c) (team_df st)"
    if "clicked ev = Some c" "column_id c = ''Status''" "row_id c \<in> fst ` set (team_df st)"
    for ev c
  proof -
    from add_players_removes [OF inv _ that(2,3)] that(1)
    obtain st' out where
      res: "add_players (triggered ev) (table_cell ev) (team_cell ev) st = Inr (st', Some out)"
      and team: "team_df st' = filter (\<lambda>(k, q). k \<noteq> row_id c) (team_df st)"
      unfolding clicked_def by blast
    from on_click_team [OF res] team res show ?thesis by auto
  qed
  ultimately show ?thesis unfolding st_def by blast
qed

theorem team_rows_marked_remove_witness:
  "team_df (session example_pool [status_click 1]) =
     [(1, \<lparr>Status = ''REMOVE'', Player = ''A'', Pos = ''QB'', Cap_Hit = 200\<rparr>)] \<and>
   team_df (on_click (session example_pool [status_click 1]) (team_click 1)) = []"
proof -
  let ?st = "session example_pool [status_click 1]"
  let ?c = "\<lparr>row_id = 1, column_id = ''Status''\<rparr>"
  have c: "clicked (team_click 1) = Some ?c" by (simp add: clicked_def team_click_def)
  have on: "row_id ?c \<in> fst ` set (team_df ?st)" by (simp add: example_team)
  from team_rows_marked_remove [of example_pool "[status_click 1]"]
  have "\<forall>ev c. clicked ev = Some c \<longrightarrow> column_id c = ''Status'' \<longrightarrow>
      row_id c \<in> fst ` set (team_df ?st) \<longrightarrow>
        (\<exists>st' out.
           add_players (triggered ev) (table_cell ev) (team_cell ev) ?st = Inr (st', Some out) \<and>
           team_df st' = filter (\<lambda>(k, q). k \<noteq> row_id c) (team_df ?st)) \<and>
        team_df (on_click ?st ev) = filter (\<lambda>(k, q). k \<noteq> row_id c) (team_df ?st)"
    by blast
  from this [rule_format, OF c _ on]
  show ?thesis by (simp add: example_team)
qed

lemma py_round_nonneg: "0 \<le> x \<Longrightarrow> 0 \<le> py_round x"
  by (simp add: py_round_def Let_def)

lemma pow2_pos: "0 < pow2 k"
  by (simp add: pow2_def)

lemma true_divide_nonneg: "true_divide a b = Inr x \<Longrightarrow> 0 \<le> x"
proof -
  assume res: "true_divide a b = Inr x"
  have "0 \<le> float_mantissa a b e" for e
    unfolding float_mantissa_def using pow2_pos [of "52 - e"]
    by (intro py_round_nonneg mult_nonneg_nonneg) (simp_all add: less_imp_le)
  then have "0 \<le> of_int (float_mantissa a b e) * pow2 (e - 52)" for e
    using pow2_pos [of "e - 52"] by (intro mult_nonneg_nonneg) (simp_all add: less_imp_le)
  with res show ?thesis
    by (auto simp: true_divide_def Let_def split: if_splits)
qed

lemma to_millions_rounds:
  assumes "to_millions row = Inr p"
  shows "\<exists>n x. dollars (Cap_Hit row) = Inr n \<and> true_divide n 1000000 = Inr x \<and>
           cap_hit_float p = py_round1 x"
proof -
  from assms obtain n x where n: "dollars (Cap_Hit row) = Inr n"
    and x: "true_divide n 1000000 = Inr x"
    and p: "Cap_Hit p = nat (py_round (x * 10))"
    by (auto simp: to_millions_def split: sum.splits)
  from true_divide_nonneg [OF x] have "0 \<le> py_round (x * 10)" by (intro py_round_nonneg) simp
  then have "cap_hit_float p = py_round1 x"
    by (simp add: cap_hit_float_def p py_round1_def)
  with n x show ?thesis by blast
qed

lemma convert_salaries_rows:
  "convert_salaries scraped = Inr df \<Longrightarrow> (l, p) \<in> set df \<Longrightarrow>
   \<exists>row. (l, row) \<in> set scraped \<and> to_millions row = Inr p"
proof (induction scraped arbitrary: df rule: convert_salaries.induct)
  case 1
  then show ?case by simp
next
  case (2 k row rest)
  then show ?case by (fastforce split: sum.splits)
qed

lemma add_players_player_df:
  "add_players tid c0 tc st = Inr (st', out) \<Longrightarrow> player_df st' = player_df st"
  by (auto simp: add_players_def Let_def split: option.splits if_splits sum.splits)

lemma on_click_cap:
  "map_option Cap_Hit (player_df (on_click st ev) l) = map_option Cap_Hit (player_df st l)"
proof (cases "add_players (triggered ev) (table_cell ev) (team_cell ev) st")
  case (Inl e)
  then show ?thesis by (simp add: on_click_def)
next
  case (Inr res)
  obtain st' out where res: "res = (st', out)" by (cases res)
  from add_players_player_df [OF Inr [unfolded res]] have same: "player_df st' = player_df st" .
  show ?thesis
  proof (cases out)
    case None
    with Inr res same show ?thesis by (simp add: on_click_def)
  next
    case (Some a)
    with Inr res same show ?thesis
      by (simp add: on_click_def modify_button_player_df option.map_comp comp_def)
  qed
qed

lemma session_cap:
  "map_option Cap_Hit (player_df (session pool evs) l) = map_option Cap_Hit (pool l)"
proof -
  have "map_option Cap_Hit (player_df (foldl on_click st evs) l) = map_option Cap_Hit (player_df st l)"
    for st
    by (induction evs arbitrary: st) (simp_all add: on_click_cap)
  then show ?thesis
    by (simp add: session_def initial_dashboard_def option.map_comp comp_def)
qed

text \<open>The floats of the example: 1040000 / 1000000 is the float next to 1.04, and
  1050000 / 1000000 is the float just above 1.05, which rounds up.\<close>

lemma bit_length_million: "bit_length 1000000 = 20"
  by (simp add: bit_length.simps)

lemma example_float_104: "true_divide 1040000 1000000 = Inr (4683743612465316 / 4503599627370496)"
proof -
  have "bit_length 1040000 = 20" by (simp add: bit_length.simps)
  then have e: "float_exponent 1040000 1000000 = 0"
    by (simp add: float_exponent_def bit_length_million pow2_def)
  have m: "float_mantissa 1040000 1000000 0 = 4683743612465316"
    unfolding float_mantissa_def by (rule py_round_nearest) (simp add: pow2_def)
  show ?thesis by (simp add: true_divide_def e m pow2_def)
qed

lemma example_float_105: "true_divide 1050000 1000000 = Inr (4728779608739021 / 4503599627370496)"
proof -
  have "bit_length 1050000 = 21" by (simp add: bit_length.simps)
  then have e: "float_exponent 1050000 1000000 = 0"
    by (simp add: float_exponent_def bit_length_million pow2_def)
  have m: "float_mantissa 1050000 1000000 0 = 4728779608739021"
    unfolding float_mantissa_def by (rule py_round_nearest) (simp add: pow2_def)
  show ?thesis by (simp add: true_divide_def e m pow2_def)
qed

lemma example_float_095: "true_divide 950000 1000000 = Inr (4278419646001971 / 4503599627370496)"
proof -
  have "bit_length 950000 = 20" by (simp add: bit_length.simps)
  then have e: "float_exponent 950000 1000000 = - 1"
    by (simp add: float_exponent_def bit_length_million pow2_def)
  have m: "float_mantissa 950000 1000000 (- 1) = 8556839292003942"
    unfolding float_mantissa_def by (rule py_round_nearest) (simp add: pow2_def)
  show ?thesis by (simp add: true_divide_def e m pow2_def)
qed

lemma dollars_example:
  "dollars (Str ''$1,040,000'') = Inr 1040000"
  "dollars (Str ''$1,050,000'') = Inr 1050000"
  "dollars (Str ''$950,000'') = Inr 950000"
  by (simp_all add: dollars_def is_digit_def int_of_digits_def digit_value_def)

lemma example_tenths:
  "py_round (4683743612465316 / 4503599627370496 * 10) = 10"
  "py_round (4728779608739021 / 4503599627370496 * 10) = 11"
  "py_round (4278419646001971 / 4503599627370496 * 10) = 9"
  by (rule py_round_nearest, simp)+

text \<open>The salaries that end in 50,000 dollars go the way of their floats: 1,050,000 up
  to \<^verbatim>\<open>$1.1m\<close>, 950,000 down to \<^verbatim>\<open>$0.9m\<close>.\<close>

lemma to_millions_ties:
  "to_millions \<lparr>Status = [], Player = ''E'', Pos = ''S'', Cap_Hit = Str ''$1,050,000''\<rparr>
     = Inr \<lparr>Status = [], Player = ''E'', Pos = ''S'', Cap_Hit = 11\<rparr>"
  "to_millions \<lparr>Status = [], Player = ''F'', Pos = ''S'', Cap_Hit = Str ''$950,000''\<rparr>
     = Inr \<lparr>Status = [], Player = ''F'', Pos = ''S'', Cap_Hit = 9\<rparr>"
  by (simp_all only: to_millions_def dollars_example example_float_105 example_float_095
      example_tenths sum.case player_row.simps nat_numeral)

lemma convert_example: "convert_salaries example_scraped = Inr example_cleaned"
proof -
  have "to_millions \<lparr>Status = [], Player = n, Pos = q, Cap_Hit = Str ''$1,040,000''\<rparr>
      = Inr \<lparr>Status = [], Player = n, Pos = q, Cap_Hit = 10\<rparr>" for n q
    by (simp only: to_millions_def dollars_example example_float_104 example_tenths sum.case
        player_row.simps nat_numeral)
  then show ?thesis
    by (simp add: example_scraped_def example_cleaned_def to_millions_ties)
qed

lemma example_two_team:
  "team_df (session (map_of example_cleaned) [status_click 0, status_click 1]) =
     [(0, \<lparr>Status = ''REMOVE'', Player = ''C'', Pos = ''K'', Cap_Hit = 10\<rparr>),
      (1, \<lparr>Status = ''REMOVE'', Player = ''D'', Pos = ''P'', Cap_Hit = 10\<rparr>)]"
  by (simp add: session_eval example_cleaned_def)

lemma example_two_display:
  "salary_display (session (map_of example_cleaned) [status_click 0, status_click 1]) = 148"
  by (simp add: session_eval example_cleaned_def py_round1_def py_round_def)

lemma example_tie_team:
  "team_df (session (map_of example_cleaned) [status_click 2]) =
     [(2, \<lparr>Status = ''REMOVE'', Player = ''E'', Pos = ''S'', Cap_Hit = 11\<rparr>)]"
  by (simp add: session_eval example_cleaned_def)

lemma example_tie_display:
  "salary_display (session (map_of example_cleaned) [status_click 2]) = 1489 / 10"
proof -
  have "py_round 1489 = 1489" using py_round_of_int [of 1489] by simp
  then show ?thesis by (simp add: session_eval example_cleaned_def py_round1_def)
qed

lemma full_precision_example: "full_precision_budget [1040000, 1040000] = 1479 / 10"
proof -
  have "py_round (7396 / 5) = 1479" by (rule py_round_nearest) simp
  then show ?thesis by (simp add: full_precision_budget_def SALARY_def py_round1_def)
qed

text \<open>
  C9, as the specification states it, fails: the salaries are rounded to one decimal when
  the pool is loaded, and the budget is computed from the rounded salaries. Two players
  of 1,040,000 dollars are stored as 1.0 each and leave 148.0; arithmetic in full
  precision, rounded only for display, would leave 147.9.
\<close>

theorem full_precision_counterexample:
  "convert_salaries example_scraped = Inr example_cleaned \<and>
   salary_display (session (map_of example_cleaned) [status_click 0, status_click 1]) = 148 \<and>
   full_precision_budget [1040000, 1040000] = 1479 / 10 \<and>
   salary_display (session (map_of example_cleaned) [status_click 0, status_click 1])
     \<noteq> full_precision_budget [1040000, 1040000]"
  by (simp add: convert_example example_two_display full_precision_example)

text \<open>
  C9, amended. \<^verbatim>\<open>to_millions\<close> rounds every salary to one decimal of a million when the
  pool is loaded: the stored salary of a member is \<^verbatim>\<open>round(x, 1)\<close> of the float \<open>x\<close> that
  the division of its dollars by 1000000 gives. The budget of \<^verbatim>\<open>add_players\<close> is the cap
  less the sum of these stored salaries of the members, computed afresh from the team at
  every change. So repeated changes add no drift, but the amounts are the rounded ones,
  not the full-precision ones.
\<close>

theorem budget_from_rounded_salaries:
  assumes "convert_salaries scraped = Inr df"
  shows "(\<forall>(l, p) \<in> set (team_df (session (map_of df) evs)).
            \<exists>row n x. (l, row) \<in> set scraped \<and> dollars (Cap_Hit row) = Inr n \<and>
                      true_divide n 1000000 = Inr x \<and> cap_hit_float p = py_round1 x) \<and>
         salary_display (session (map_of df) evs)
           = SALARY - sum_list (map (\<lambda>(l, p). cap_hit_float p) (team_df (session (map_of df) evs)))"
proof -
  define st where "st = session (map_of df) evs"
  have inv: "roster_inv st" unfolding st_def by (rule session_inv)
  have "\<exists>row n x. (l, row) \<in> set scraped \<and> dollars (Cap_Hit row) = Inr n \<and>
                  true_divide n 1000000 = Inr x \<and> cap_hit_float p = py_round1 x"
    if "(l, p) \<in> set (team_df st)" for l p
  proof -
    from inv that obtain q where q: "player_df st l = Some q" and cap: "Cap_Hit q = Cap_Hit p"
      by (auto simp: roster_inv_def)
    from session_cap [of "map_of df" evs l] q obtain q0
      where q0: "map_of df l = Some q0" and cap0: "Cap_Hit q0 = Cap_Hit q"
      by (cases "map_of df l") (auto simp: st_def)
    from convert_salaries_rows [OF assms map_of_SomeD [OF q0]]
    obtain row where row: "(l, row) \<in> set scraped" and tm: "to_millions row = Inr q0" by blast
    from to_millions_rounds [OF tm] obtain n x where
      "dollars (Cap_Hit row) = Inr n" "true_divide n 1000000 = Inr x"
      "cap_hit_float q0 = py_round1 x" by blast
    with row cap cap0 show ?thesis by (auto simp: cap_hit_float_def)
  qed
  moreover have "salary_display st = SALARY - sum_list (map (\<lambda>(l, p). cap_hit_float p) (team_df st))"
    using inv by (simp add: roster_inv_def salaries_def)
  ultimately show ?thesis unfolding st_def by blast
qed

theorem budget_from_rounded_salaries_witness:
  "(\<exists>row n x. (2, row) \<in> set example_scraped \<and> dollars (Cap_Hit row) = Inr n \<and>
       true_divide n 1000000 = Inr x \<and>
       cap_hit_float \<lparr>Status = ''REMOVE'', Player = ''E'', Pos = ''S'', Cap_Hit = 11\<rparr>
         = py_round1 x) \<and>
   salary_display (session (map_of example_cleaned) [status_click 2]) = 1489 / 10"
  using budget_from_rounded_salaries [OF convert_example, of "[status_click 2]"]
  by (simp add: example_tie_team example_tie_display)

section \<open>Properties of the projection\<close>

subsection \<open>The example, step by step\<close>

lemma example_from_dict:
  "from_dict example_team_dict =
     \<lparr>columns = [''Status'', ''Player'', ''Pos'', ''Cap Hit'', ''Cmp%'', ''Yds''],
      rows = example_team_dict\<rparr>"
  by (simp add: from_dict_def example_team_dict_def first_seen_def)

lemma example_change_pos:
  "foldl change_pos
     [(''Status'', Str ''REMOVE''), (''Player'', Str ''A''), (''Pos'', Str ''OLB''),
      (''Cap Hit'', Str ''$2.0m''), (''Cmp%'', NaN), (''Yds'', Num 11)] POSITION_CHANGES =
     [(''Status'', Str ''REMOVE''), (''Player'', Str ''A''), (''Pos'', Str ''LB''),
      (''Cap Hit'', Str ''$2.0m''), (''Cmp%'', NaN), (''Yds'', Num 11)]"
  by (simp add: POSITION_CHANGES_def change_pos_def cell_at_def)

lemma example_condense: "condense_positions (from_dict example_team_dict) = Inr example_gm_team"
proof -
  have "condense_positions (from_dict example_team_dict) =
      Inr \<lparr>columns = [''Status'', ''Player'', ''Pos'', ''Cap Hit'', ''Cmp%'', ''Yds''],
           rows = map (\<lambda>r. foldl change_pos r POSITION_CHANGES) example_team_dict\<rparr>"
    unfolding example_from_dict
    by (simp add: condense_positions_def) (simp add: example_team_dict_def cell_at_def)
  also have "map (\<lambda>r. foldl change_pos r POSITION_CHANGES) example_team_dict =
      [[(''Status'', Str ''REMOVE''), (''Player'', Str ''A''), (''Pos'', Str ''LB''),
        (''Cap Hit'', Str ''$2.0m''), (''Cmp%'', NaN), (''Yds'', Num 11)]]"
    unfolding example_team_dict_def by (simp only: list.map example_change_pos)
  finally show ?thesis by (simp add: example_gm_team_def)
qed

lemma example_drop: "drop_columns [''Team'', ''Season''] example_agg_teams = Inr example_team_data"
  by (simp add: drop_columns_def example_agg_teams_def example_team_data_def)

lemma example_stats:
  "get_team_stats example_team_data example_gm_team =
     Inr ([''Sk''], \<lparr>columns = [''Cmp%'', ''Yds''], rows = [[(''Cmp%'', NaN), (''Yds'', Num 16)]]\<rparr>)"
  by (simp add: get_team_stats_def example_team_data_def example_gm_team_def team_stat_def
      AVERAGED_STATS_def column_def cell_at_def series_sum_def series_mean_def round1_cell_def)

lemma example_all_teams:
  "all_teams (from_dict example_team_dict) example_agg_teams =
     Inr \<lparr>columns = [''Cmp%'', ''Yds'', ''W-L%''],
          rows =
            [[(''Cmp%'', Num (125 / 2)), (''Yds'', Num 5000), (''W-L%'', Num (3 / 4))],
             [(''Cmp%'', Num 58), (''Yds'', Num 4000), (''W-L%'', Num (1 / 4))],
             [(''Cmp%'', Num 0), (''Yds'', Num 16), (''W-L%'', Num 0)]]\<rparr>"
  unfolding all_teams_def example_condense example_drop
  by (simp add: example_stats)
     (simp add: drop_columns_def example_team_data_def concat_frames_def fillna0_def cell_at_def)

lemma example_run_ml:
  "run_ml (constant_estimator y)
     \<lparr>columns = [''Cmp%'', ''Yds'', ''W-L%''],
      rows =
        [[(''Cmp%'', Num (125 / 2)), (''Yds'', Num 5000), (''W-L%'', Num (3 / 4))],
         [(''Cmp%'', Num 58), (''Yds'', Num 4000), (''W-L%'', Num (1 / 4))],
         [(''Cmp%'', Num 0), (''Yds'', Num 16), (''W-L%'', Num 0)]]\<rparr>
   = Inr (py_round (y * 17))"
  by (simp add: run_ml_def constant_estimator_def features_def x_cols_def)

lemma example_projection:
  "update_machinelearning (constant_estimator y) example_agg_teams ''button'' example_team_dict
     = Inr (Some (min (max (py_round (y * 17)) 0) 16))"
  by (simp add: update_machinelearning_def analyze_team_def example_all_teams example_run_ml)

subsection \<open>The season's wins\<close>

text \<open>
  C2. The claim is the specification's: the wins are the fraction times 16, rounded, then
  clamped to 0..16. \<^verbatim>\<open>run_ml\<close> multiplies by 17 (line 172) while the clamp, the label of
  the display and the season adjustment all use 16. For a predicted fraction of 3/4 the
  callback returns 13; the claim gives 12.
\<close>

theorem wins_use_seventeen_games:
  "update_machinelearning (constant_estimator (3 / 4)) example_agg_teams ''button''
     example_team_dict = Inr (Some 13) \<and>
   spec_season_wins (3 / 4) = 12"
proof -
  have "py_round (51 / 4) = 13" by (rule py_round_nearest) simp
  moreover have "py_round 12 = 12" using py_round_of_int [of 12] by simp
  ultimately show ?thesis by (simp add: example_projection spec_season_wins_def)
qed

text \<open>
  C3. Whatever the regression predicts, when the button fires the callback and the
  analysis returns, the value handed to the display is an integer from 0 to 16.
\<close>

theorem wins_within_season:
  assumes "update_machinelearning reg agg_teams ''button'' team_dict = Inr out"
  shows "\<exists>wins. out = Some wins \<and> 0 \<le> wins \<and> wins \<le> 16"
  using assms
  by (auto simp: update_machinelearning_def Let_def split: sum.splits)

theorem wins_within_season_witness:
  "update_machinelearning (constant_estimator 100) example_agg_teams ''button''
     example_team_dict = Inr (Some 16) \<and>
   update_machinelearning (constant_estimator (- 5)) example_agg_teams ''button''
     example_team_dict = Inr (Some 0) \<and>
   (\<exists>wins. Some (16 :: int) = Some wins \<and> 0 \<le> wins \<and> wins \<le> 16)"
proof -
  have hi: "py_round 1700 = 1700" using py_round_of_int [of 1700] by simp
  have lo: "py_round (- 85) = - 85" using py_round_of_int [of "- 85"] by simp
  have a: "update_machinelearning (constant_estimator 100) example_agg_teams ''button''
     example_team_dict = Inr (Some 16)"
    by (simp add: example_projection hi)
  have b: "update_machinelearning (constant_estimator (- 5)) example_agg_teams ''button''
     example_team_dict = Inr (Some 0)"
    by (simp add: example_projection lo)
  from wins_within_season [OF a] a b show ?thesis by simp
qed

subsection \<open>Positions\<close>

lemma foldl_change_pos_id:
  "\<forall>ch \<in> set chs. cell_at r ''Pos'' \<noteq> Str (fst ch) \<Longrightarrow> foldl change_pos r chs = r"
  by (induction chs) (simp_all add: change_pos_def)

text \<open>
  C8, as the specification states it, fails: a position that is no known synonym raises
  nothing. The player of position \<^verbatim>\<open>XX\<close> comes out of \<^verbatim>\<open>condense_positions\<close> as it went in.
\<close>

theorem unknown_position_counterexample:
  "condense_positions example_unknown_position = Inr example_unknown_position"
proof -
  have "foldl change_pos
      [(''Player'', Str ''E''), (''Pos'', Str ''XX''), (''Cap Hit'', Str ''$1,000,000'')]
      POSITION_CHANGES
    = [(''Player'', Str ''E''), (''Pos'', Str ''XX''), (''Cap Hit'', Str ''$1,000,000'')]"
    by (rule foldl_change_pos_id) (simp add: POSITION_CHANGES_def cell_at_def)
  then show ?thesis
    by (simp add: condense_positions_def example_unknown_position_def cell_at_def)
qed

text \<open>
  C8, amended. On a frame that has the columns \<^verbatim>\<open>Cap Hit\<close> and \<^verbatim>\<open>Pos\<close>,
  \<^verbatim>\<open>condense_positions\<close> raises nothing. It drops, without a word, the rows with no cap hit
  and the long snappers, and keeps every other row; a row whose position is none of the
  synonyms it rewrites is kept as it is, its position unchanged.
\<close>

theorem unknown_position_passes:
  assumes "''Cap Hit'' \<in> set (columns df)" and "''Pos'' \<in> set (columns df)"
  shows "\<exists>out. condense_positions df = Inr out \<and>
           length (rows out)
             = length (filter (\<lambda>r. cell_at r ''Cap Hit'' \<noteq> Str [] \<and> cell_at r ''Cap Hit'' \<noteq> NaN \<and>
                                    cell_at r ''Pos'' \<noteq> Str ''LS'') (rows df)) \<and>
           (\<forall>r \<in> set (rows df).
              cell_at r ''Cap Hit'' \<noteq> Str [] \<longrightarrow> cell_at r ''Cap Hit'' \<noteq> NaN \<longrightarrow>
              cell_at r ''Pos'' \<noteq> Str ''LS'' \<longrightarrow>
              cell_at r ''Pos'' \<notin> Str ` fst ` set POSITION_CHANGES \<longrightarrow>
                r \<in> set (rows out))"
proof -
  let ?keep = "\<lambda>r. cell_at r ''Cap Hit'' \<noteq> Str [] \<and> cell_at r ''Cap Hit'' \<noteq> NaN"
  let ?out = "\<lparr>columns = columns df,
               rows = map (\<lambda>r. foldl change_pos r POSITION_CHANGES)
                        (filter (\<lambda>r. cell_at r ''Pos'' \<noteq> Str ''LS'') (filter ?keep (rows df)))\<rparr>"
  have out: "condense_positions df = Inr ?out"
    using assms by (simp add: condense_positions_def Let_def)
  have len: "length (rows ?out)
      = length (filter (\<lambda>r. ?keep r \<and> cell_at r ''Pos'' \<noteq> Str ''LS'') (rows df))"
    by (simp add: conj_commute)
  have kept: "r \<in> set (rows ?out)"
    if "r \<in> set (rows df)" "?keep r" "cell_at r ''Pos'' \<noteq> Str ''LS''"
      "cell_at r ''Pos'' \<notin> Str ` fst ` set POSITION_CHANGES" for r
  proof -
    from that(4) have "\<forall>ch \<in> set POSITION_CHANGES. cell_at r ''Pos'' \<noteq> Str (fst ch)" by force
    then have "foldl change_pos r POSITION_CHANGES = r" by (rule foldl_change_pos_id)
    with that(1-3) show ?thesis by (force simp: image_iff)
  qed
  show ?thesis
    apply (rule exI [of _ ?out])
    using out len kept by (simp add: conj_assoc)
qed

theorem unknown_position_passes_witness:
  "\<exists>out. condense_positions example_unknown_position = Inr out \<and>
     [(''Player'', Str ''E''), (''Pos'', Str ''XX''), (''Cap Hit'', Str ''$1,000,000'')]
       \<in> set (rows out)"
proof -
  let ?r = "[(''Player'', Str ''E''), (''Pos'', Str ''XX''), (''Cap Hit'', Str ''$1,000,000'')]"
  have cols: "''Cap Hit'' \<in> set (columns example_unknown_position)"
    "''Pos'' \<in> set (columns example_unknown_position)"
    by (simp_all add: example_unknown_position_def)
  have r: "?r \<in> set (rows example_unknown_position)" by (simp add: example_unknown_position_def)
  have cap: "cell_at ?r ''Cap Hit'' \<noteq> Str []" "cell_at ?r ''Cap Hit'' \<noteq> NaN"
    and pos: "cell_at ?r ''Pos'' \<noteq> Str ''LS''"
      "cell_at ?r ''Pos'' \<notin> Str ` fst ` set POSITION_CHANGES"
    by (simp_all add: cell_at_def POSITION_CHANGES_def)
  from unknown_position_passes [OF cols] obtain out where
    out: "condense_positions example_unknown_position = Inr out"
    and kept: "\<forall>r \<in> set (rows example_unknown_position).
              cell_at r ''Cap Hit'' \<noteq> Str [] \<longrightarrow> cell_at r ''Cap Hit'' \<noteq> NaN \<longrightarrow>
              cell_at r ''Pos'' \<noteq> Str ''LS'' \<longrightarrow>
              cell_at r ''Pos'' \<notin> Str ` fst ` set POSITION_CHANGES \<longrightarrow>
                r \<in> set (rows out)"
    by blast
  from kept [rule_format, OF r cap pos] out show ?thesis by blast
qed

subsection \<open>The team's statistics\<close>

lemma numbers_all_missing: "list_all (\<lambda>c. c = NaN) cs \<Longrightarrow> numbers cs = Inr []"
  by (induction cs) simp_all




lemma team_stats_loop_empty:
  "team_stats_loop labels gm stats ecs = Inr (stats', ecs') \<Longrightarrow>
   ecs' = ecs @ filter (\<lambda>l. l \<notin> set (columns gm)) labels"
proof (induction labels arbitrary: stats ecs)
  case Nil
  then show ?case by simp
next
  case (Cons label labels)
  show ?case
  proof (cases "label \<in> set (columns gm)")
    case True
    with Cons.prems obtain v where
      "team_stats_loop labels gm (AList.update label v stats) ecs = Inr (stats', ecs')"
      by (auto split: sum.splits)
    from Cons.IH [OF this] True show ?thesis by simp
  next
    case False
    with Cons.prems have "team_stats_loop labels gm stats (ecs @ [label]) = Inr (stats', ecs')"
      by simp
    from Cons.IH [OF this] False show ?thesis by simp
  qed
qed

lemma team_stats_loop_keys:
  "team_stats_loop labels gm stats ecs = Inr (stats', ecs') \<Longrightarrow>
   fst ` set stats' = fst ` set stats \<union> (set labels \<inter> set (columns gm))"
proof (induction labels arbitrary: stats ecs)
  case Nil
  then show ?case by simp
next
  case (Cons label labels)
  show ?case
  proof (cases "label \<in> set (columns gm)")
    case True
    with Cons.prems obtain v where v: "team_stat gm label = Inr v"
      and rest: "team_stats_loop labels gm (AList.update label v stats) ecs = Inr (stats', ecs')"
      by (auto split: sum.splits)
    from Cons.IH [OF rest] True show ?thesis by (auto simp: dom_update)
  next
    case False
    with Cons.prems have "team_stats_loop labels gm stats (ecs @ [label]) = Inr (stats', ecs')"
      by simp
    from Cons.IH [OF this] False show ?thesis by auto
  qed
qed

lemma team_stats_loop_value:
  "team_stats_loop labels gm stats ecs = Inr (stats', ecs') \<Longrightarrow>
   map_of stats' l =
     (if l \<in> set labels \<and> l \<in> set (columns gm)
      then (case team_stat gm l of Inl e \<Rightarrow> None | Inr v \<Rightarrow> Some v)
      else map_of stats l)"
proof (induction labels arbitrary: stats ecs)
  case Nil
  then show ?case by simp
next
  case (Cons label labels)
  show ?case
  proof (cases "label \<in> set (columns gm)")
    case True
    with Cons.prems obtain v where v: "team_stat gm label = Inr v"
      and rest: "team_stats_loop labels gm (AList.update label v stats) ecs = Inr (stats', ecs')"
      by (auto split: sum.splits)
    from Cons.IH [OF rest] True v show ?thesis by (auto simp: update_conv')
  next
    case False
    with Cons.prems have "team_stats_loop labels gm stats (ecs @ [label]) = Inr (stats', ecs')"
      by simp
    from Cons.IH [OF this] False show ?thesis by auto
  qed
qed


lemma get_team_stats_loop:
  assumes "get_team_stats team_data gm_team = Inr (empty_cols, stats)"
  obtains r ecs where "team_stats_loop (columns team_data) gm_team [] [] = Inr (r, ecs)"
    and "''W-L%'' \<in> set ecs" and "empty_cols = remove1 ''W-L%'' ecs"
    and "columns stats = map fst r" and "rows stats = (if r = [] then [] else [r])"
  using assms by (auto simp: get_team_stats_def split: sum.splits if_splits)

lemma get_team_stats_columns:
  assumes "get_team_stats team_data gm_team = Inr (empty_cols, stats)"
  shows "set (columns stats) = set (columns team_data) \<inter> set (columns gm_team)"
proof -
  from assms obtain r ecs where
    loop: "team_stats_loop (columns team_data) gm_team [] [] = Inr (r, ecs)"
    and cols: "columns stats = map fst r"
    by (rule get_team_stats_loop)
  from team_stats_loop_keys [OF loop] cols show ?thesis by simp
qed

lemma get_team_stats_value:
  assumes "get_team_stats team_data gm_team = Inr (empty_cols, stats)"
    and "label \<in> set (columns team_data)" and "label \<in> set (columns gm_team)"
  shows "\<exists>r. rows stats = [r] \<and> team_stat gm_team label = Inr (cell_at r label)"
proof -
  from assms(1) obtain r ecs where
    loop: "team_stats_loop (columns team_data) gm_team [] [] = Inr (r, ecs)"
    and rows: "rows stats = (if r = [] then [] else [r])"
    by (rule get_team_stats_loop)
  from team_stats_loop_keys [OF loop] assms(2,3) have key: "label \<in> fst ` set r" by auto
  then have "r \<noteq> []" by auto
  moreover from key have "map_of r label \<noteq> None" by (simp add: map_of_eq_None_iff)
  with team_stats_loop_value [OF loop, of label] assms(2,3)
  have "team_stat gm_team label = Inr (cell_at r label)"
    by (cases "team_stat gm_team label") (auto simp: cell_at_def)
  ultimately show ?thesis using rows by simp
qed

lemma example_yards: "numbers (column example_gm_team ''Yds'') = Inr [11]"
  by (simp add: example_gm_team_def column_def cell_at_def)

text \<open>
  C5, as the specification states it, fails: \<^verbatim>\<open>get_team_stats\<close> has no count of observed
  games. A raw sum of 11 yards becomes 16, whatever the season; with 8 games observed the
  claim gives 22, and with none it demands a failure.
\<close>

theorem observed_games_counterexample:
  "numbers (column example_gm_team ''Yds'') = Inr [11] \<and>
   get_team_stats example_team_data example_gm_team =
     Inr ([''Sk''], \<lparr>columns = [''Cmp%'', ''Yds''], rows = [[(''Cmp%'', NaN), (''Yds'', Num 16)]]\<rparr>) \<and>
   spec_adjusted 11 8 = Inr 22 \<and>
   spec_adjusted 11 0 = Inl ZeroGamesError"
  by (simp add: example_yards example_stats spec_adjusted_def)

text \<open>
  C5, amended. For a statistic that is a column of the history and of the roster and is
  not averaged, the team's value is the sum of the roster's values that are not missing,
  times the constant 16/11 (the 11 games of the 2022 season when the code was written).
  No game count is read, and nothing fails for a count of 0.
\<close>

theorem summed_statistic_adjusted:
  assumes "get_team_stats team_data gm_team = Inr (empty_cols, stats)"
    and "label \<in> set (columns team_data)" and "label \<in> set (columns gm_team)"
    and "label \<notin> set AVERAGED_STATS"
  shows "\<exists>r xs. rows stats = [r] \<and> numbers (column gm_team label) = Inr xs \<and>
           cell_at r label = Num (sum_list xs * (16 / 11))"
proof -
  from get_team_stats_value [OF assms(1-3)] obtain r where
    r: "rows stats = [r]" and v: "team_stat gm_team label = Inr (cell_at r label)" by blast
  from v assms(4) obtain xs where "numbers (column gm_team label) = Inr xs"
    and "cell_at r label = Num (sum_list xs * (16 / 11))"
    by (auto simp: team_stat_def series_sum_def split: sum.splits)
  with r show ?thesis by blast
qed

theorem summed_statistic_adjusted_witness:
  "\<exists>r xs. [[(''Cmp%'', NaN), (''Yds'', Num 16)]] = [r] \<and>
     numbers (column example_gm_team ''Yds'') = Inr xs \<and>
     cell_at r ''Yds'' = Num (sum_list xs * (16 / 11))"
proof -
  have "''Yds'' \<in> set (columns example_team_data)" "''Yds'' \<in> set (columns example_gm_team)"
    "''Yds'' \<notin> set AVERAGED_STATS"
    by (simp_all add: example_team_data_def example_gm_team_def AVERAGED_STATS_def)
  from summed_statistic_adjusted [OF example_stats this] show ?thesis by simp
qed

lemma example_no_stats_vector:
  "get_team_stats example_team_data example_no_stats =
     Inr ([''Sk''], \<lparr>columns = [''Cmp%'', ''Yds''], rows = [[(''Cmp%'', NaN), (''Yds'', Num 0)]]\<rparr>)"
  by (simp add: get_team_stats_def example_team_data_def example_no_stats_def team_stat_def
      AVERAGED_STATS_def column_def cell_at_def series_sum_def series_mean_def round1_cell_def)

text \<open>
  C7, as the specification states it, fails: a statistic for which no member of the
  roster has a value stays in the vector. For the roster without yards and without a
  completion percentage the vector holds both, the one as 0 and the other as NaN.
\<close>

theorem missing_statistic_counterexample:
  "list_all (\<lambda>c. c = NaN) (column example_no_stats ''Yds'') \<and>
   list_all (\<lambda>c. c = NaN) (column example_no_stats ''Cmp%'') \<and>
   get_team_stats example_team_data example_no_stats =
     Inr ([''Sk''], \<lparr>columns = [''Cmp%'', ''Yds''], rows = [[(''Cmp%'', NaN), (''Yds'', Num 0)]]\<rparr>)"
  by (simp add: example_no_stats_vector) (simp add: example_no_stats_def column_def cell_at_def)

text \<open>
  C7, amended. The vector of \<^verbatim>\<open>get_team_stats\<close> holds exactly the statistics that are
  columns of the history and of the roster's table. One of them for which no member has a
  value is not dropped: its entry is 0 when the statistic is summed and NaN when it is
  averaged (\<^verbatim>\<open>analyze_team\<close> then fills the NaN with 0).
\<close>

theorem missing_statistic_kept:
  assumes "get_team_stats team_data gm_team = Inr (empty_cols, stats)"
  shows "set (columns stats) = set (columns team_data) \<inter> set (columns gm_team) \<and>
         (\<forall>label \<in> set (columns team_data) \<inter> set (columns gm_team).
            list_all (\<lambda>c. c = NaN) (column gm_team label) \<longrightarrow>
              (\<exists>r. rows stats = [r] \<and>
                   cell_at r label = (if label \<in> set AVERAGED_STATS then NaN else Num 0)))"
proof -
  have "\<exists>r. rows stats = [r] \<and>
          cell_at r label = (if label \<in> set AVERAGED_STATS then NaN else Num 0)"
    if "label \<in> set (columns team_data)" "label \<in> set (columns gm_team)"
      "list_all (\<lambda>c. c = NaN) (column gm_team label)" for label
  proof -
    from get_team_stats_value [OF assms that(1,2)] obtain r where
      r: "rows stats = [r]" and v: "team_stat gm_team label = Inr (cell_at r label)" by blast
    from v numbers_all_missing [OF that(3)]
    have "cell_at r label = (if label \<in> set AVERAGED_STATS then NaN else Num 0)"
      by (auto simp: team_stat_def series_sum_def series_mean_def round1_cell_def
          split: if_splits)
    with r show ?thesis by blast
  qed
  with get_team_stats_columns [OF assms] show ?thesis by blast
qed

theorem missing_statistic_kept_witness:
  "set [''Cmp%'', ''Yds''] = set (columns example_team_data) \<inter> set (columns example_gm_team) \<and>
   (\<exists>r. [[(''Cmp%'', NaN), (''Yds'', Num 16)]] = [r] \<and> cell_at r ''Cmp%'' = NaN)"
proof -
  have cols: "''Cmp%'' \<in> set (columns example_team_data) \<inter> set (columns example_gm_team)"
    by (simp add: example_team_data_def example_gm_team_def)
  have missing: "list_all (\<lambda>c. c = NaN) (column example_gm_team ''Cmp%'')"
    by (simp add: example_gm_team_def column_def cell_at_def)
  have avg: "''Cmp%'' \<in> set AVERAGED_STATS" by (simp add: AVERAGED_STATS_def)
  from missing_statistic_kept [OF example_stats]
  have a: "set (columns \<lparr>columns = [''Cmp%'', ''Yds''], rows = [[(''Cmp%'', NaN), (''Yds'', Num 16)]]\<rparr>)
      = set (columns example_team_data) \<inter> set (columns example_gm_team)"
    and b: "\<forall>label \<in> set (columns example_team_data) \<inter> set (columns example_gm_team).
            list_all (\<lambda>c. c = NaN) (column example_gm_team label) \<longrightarrow>
              (\<exists>r. rows \<lparr>columns = [''Cmp%'', ''Yds''], rows = [[(''Cmp%'', NaN), (''Yds'', Num 16)]]\<rparr> = [r] \<and>
                   cell_at r label = (if label \<in> set AVERAGED_STATS then NaN else Num 0))"
    by blast+
  from b [rule_format, OF cols missing] avg a show ?thesis by simp
qed

subsection \<open>The table of the regression\<close>

lemma condense_positions_columns: "condense_positions df = Inr out \<Longrightarrow> columns out = columns df"
  by (auto simp: condense_positions_def Let_def split: if_splits)

lemma drop_columns_columns:
  "drop_columns labels df = Inr out \<Longrightarrow> set (columns out) = set (columns df) - set labels"
  by (auto simp: drop_columns_def split: if_splits)

lemma map_of_keyed:
  "map_of (map (\<lambda>k. (k, f k)) ks) k = (if k \<in> set ks then Some (f k) else None)"
  by (induction ks) auto

lemma fillna0_rows:
  assumes "r \<in> set (rows (fillna0 df))"
  shows "map fst r = columns df \<and> (\<forall>c \<in> set (columns df). cell_at r c \<noteq> NaN)"
proof -
  from assms obtain r0 where
    r: "r = map (\<lambda>c. (c, case cell_at r0 c of NaN \<Rightarrow> Num 0 | v \<Rightarrow> v)) (columns df)"
    by (auto simp: fillna0_def)
  have "cell_at r c \<noteq> NaN" if "c \<in> set (columns df)" for c
  proof -
    have "map_of r c = Some (case cell_at r0 c of NaN \<Rightarrow> Num 0 | v \<Rightarrow> v)"
      unfolding r using that by (simp add: map_of_keyed)
    then show ?thesis by (simp add: cell_at_def split: cell.splits)
  qed
  moreover have "map fst r = columns df" by (simp add: r comp_def)
  ultimately show ?thesis by blast
qed

lemma example_wins: "update_machinelearning (constant_estimator (1 / 4)) example_agg_teams
    ''button'' example_team_dict = Inr (Some 4)"
proof -
  have "py_round (17 / 4) = 4" by (rule py_round_nearest) simp
  then show ?thesis by (simp add: example_projection)
qed

lemma map_of_filter_keys:
  "map_of (filter (\<lambda>(k, v). P k) r) c = (if P c then map_of r c else None)"
  by (induction r) auto

lemma cell_at_filter:
  "c \<notin> set labels \<Longrightarrow> cell_at (filter (\<lambda>(k, v). k \<notin> set labels) r) c = cell_at r c"
  by (simp add: cell_at_def map_of_filter_keys)

lemma drop_columns_rows:
  "drop_columns labels df = Inr out \<Longrightarrow>
   rows out = map (filter (\<lambda>(k, v). k \<notin> set labels)) (rows df)"
  by (auto simp: drop_columns_def split: if_splits)

lemma run_ml_fits:
  assumes "run_ml reg table = Inr wins"
  shows "\<exists>model y. rows table \<noteq> [] \<and>
           fit reg (map (\<lambda>r. map (cell_at r) (x_cols table)) (butlast (rows table)))
             (map (\<lambda>r. cell_at r ''W-L%'') (butlast (rows table))) = Inr model \<and>
           predict reg model (map (cell_at (last (rows table))) (x_cols table)) = Inr y \<and>
           wins = py_round (y * 17)"
proof -
  from assms obtain model y where ne: "features table \<noteq> []"
    and f: "fit reg (butlast (features table)) (butlast (column table ''W-L%'')) = Inr model"
    and p: "predict reg model (last (features table)) = Inr y"
    and w: "wins = py_round (y * 17)"
    by (auto simp: run_ml_def Let_def split: if_splits sum.splits)
  from ne have rows: "rows table \<noteq> []" by (auto simp: features_def)
  with f p w show ?thesis
    by (auto simp: features_def column_def map_butlast last_map)
qed

lemma example_analysis:
  "analyze_team (constant_estimator (1 / 4)) (from_dict example_team_dict) example_agg_teams
     = Inr 4"
proof -
  have "py_round (17 / 4) = 4" by (rule py_round_nearest) simp
  then show ?thesis by (simp add: analyze_team_def example_all_teams example_run_ml)
qed

text \<open>
  C4, as the specification states it, fails: nothing in the projection raises
  FeatureMismatchError, and what is missing is filled with 0. The roster of the example
  has no completion percentage: its vector holds NaN for it, the table handed to the
  regression holds 0, and the projection returns a number of wins.
\<close>

theorem zero_fill_counterexample:
  "get_team_stats example_team_data example_gm_team =
     Inr ([''Sk''], \<lparr>columns = [''Cmp%'', ''Yds''], rows = [[(''Cmp%'', NaN), (''Yds'', Num 16)]]\<rparr>) \<and>
   all_teams (from_dict example_team_dict) example_agg_teams =
     Inr \<lparr>columns = [''Cmp%'', ''Yds'', ''W-L%''],
          rows =
            [[(''Cmp%'', Num (125 / 2)), (''Yds'', Num 5000), (''W-L%'', Num (3 / 4))],
             [(''Cmp%'', Num 58), (''Yds'', Num 4000), (''W-L%'', Num (1 / 4))],
             [(''Cmp%'', Num 0), (''Yds'', Num 16), (''W-L%'', Num 0)]]\<rparr> \<and>
   update_machinelearning (constant_estimator (1 / 4)) example_agg_teams ''button''
     example_team_dict = Inr (Some 4)"
  by (simp add: example_stats example_all_teams example_wins)

text \<open>
  C4, amended. When \<^verbatim>\<open>analyze_team\<close> builds the table of the regression, its feature
  columns are exactly the columns of the history (other than \<^verbatim>\<open>Team\<close>, \<^verbatim>\<open>Season\<close> and the
  label) that are columns of the roster's table, which are the columns of the roster's
  vector: the others are dropped from the history. The rows of the table are the rows of
  the history followed by the roster's vector, and every cell that is missing in them (a
  statistic of the roster without a value, the roster's label) is 0 in the table: no
  mismatch is detected or raised. \<^verbatim>\<open>run_ml\<close> fits the model on all rows but the last and
  scores the last row, both over these same feature columns.
\<close>

theorem feature_columns_agree:
  "(all_teams gm_team agg_teams = Inr table \<longrightarrow>
      (\<exists>gm team_data empty_cols stats.
         condense_positions gm_team = Inr gm \<and>
         drop_columns [''Team'', ''Season''] agg_teams = Inr team_data \<and>
         get_team_stats team_data gm = Inr (empty_cols, stats) \<and>
         set (x_cols table)
           = (set (columns agg_teams) - {''Team'', ''Season'', ''W-L%''}) \<inter> set (columns gm_team) \<and>
         set (x_cols table) = set (columns stats) \<and>
         rows table
           = map (\<lambda>r. map (\<lambda>c. (c, case cell_at r c of NaN \<Rightarrow> Num 0 | v \<Rightarrow> v)) (columns table))
               (rows agg_teams @ rows stats))) \<and>
   (analyze_team reg gm_team agg_teams = Inr wins \<longrightarrow>
      (\<exists>table model y.
         all_teams gm_team agg_teams = Inr table \<and> rows table \<noteq> [] \<and>
         fit reg (map (\<lambda>r. map (cell_at r) (x_cols table)) (butlast (rows table)))
           (map (\<lambda>r. cell_at r ''W-L%'') (butlast (rows table))) = Inr model \<and>
         predict reg model (map (cell_at (last (rows table))) (x_cols table)) = Inr y \<and>
         wins = py_round (y * 17)))"
proof (intro conjI impI)
  assume "all_teams gm_team agg_teams = Inr table"
  then obtain gm team_data empty_cols stats team_data' where
    gm: "condense_positions gm_team = Inr gm"
    and td: "drop_columns [''Team'', ''Season''] agg_teams = Inr team_data"
    and gts: "get_team_stats team_data gm = Inr (empty_cols, stats)"
    and td': "drop_columns empty_cols team_data = Inr team_data'"
    and table: "table = fillna0 (concat_frames team_data' stats)"
    by (auto simp: all_teams_def split: sum.splits)
  from gts obtain r ecs where
    loop: "team_stats_loop (columns team_data) gm [] [] = Inr (r, ecs)"
    and wl: "''W-L%'' \<in> set ecs" and ec: "empty_cols = remove1 ''W-L%'' ecs"
    by (rule get_team_stats_loop)
  have cgm: "columns gm = columns gm_team" using gm by (rule condense_positions_columns)
  have ctd: "set (columns team_data) = set (columns agg_teams) - {''Team'', ''Season''}"
    using drop_columns_columns [OF td] by simp
  have ecs: "set ecs = set (columns team_data) - set (columns gm)"
    using team_stats_loop_empty [OF loop] by auto
  have cstats: "set (columns stats) = set (columns team_data) \<inter> set (columns gm)"
    using gts by (rule get_team_stats_columns)
  have ctd': "set (columns team_data') = set (columns team_data) - set empty_cols"
    using td' by (rule drop_columns_columns)
  have in_ec: "x \<in> set empty_cols \<longleftrightarrow> x \<in> set ecs" if "x \<noteq> ''W-L%''" for x
    unfolding ec using that by (rule in_set_remove1)
  have sub_ec: "set empty_cols \<subseteq> set ecs" unfolding ec by (rule set_remove1_subset)
  have ctable: "set (columns table) = set (columns team_data') \<union> set (columns stats)"
    by (auto simp: table fillna0_def concat_frames_def)
  have feats: "set (x_cols table) = set (columns team_data) \<inter> set (columns gm)"
    unfolding x_cols_def using ctable ctd' cstats ecs in_ec wl by auto
  moreover have "''W-L%'' \<notin> set (columns gm)" using wl ecs by auto
  ultimately have first: "set (x_cols table)
      = (set (columns agg_teams) - {''Team'', ''Season'', ''W-L%''}) \<inter> set (columns gm_team)"
    using ctd cgm by auto
  let ?fill = "\<lambda>r. map (\<lambda>c. (c, case cell_at r c of NaN \<Rightarrow> Num 0 | v \<Rightarrow> v)) (columns table)"
  let ?f1 = "filter (\<lambda>(k, v). k \<notin> set [''Team'', ''Season''])"
  let ?f2 = "filter (\<lambda>(k, v). k \<notin> set empty_cols)"
  have ctd0: "set (columns team_data) = set (columns agg_teams) - set [''Team'', ''Season'']"
    using td by (rule drop_columns_columns)
  have kept1: "c \<notin> set [''Team'', ''Season'']" if "c \<in> set (columns table)" for c
    using that ctable ctd' cstats ctd0 by blast
  have kept2: "c \<notin> set empty_cols" if "c \<in> set (columns table)" for c
    using that ctable ctd' cstats ecs sub_ec by blast
  have same: "?fill (?f2 (?f1 r0)) = ?fill r0" for r0 :: row
  proof (rule map_cong [OF refl])
    fix c
    assume c: "c \<in> set (columns table)"
    have "cell_at (?f2 (?f1 r0)) c = cell_at (?f1 r0) c"
      using kept2 [OF c] by (rule cell_at_filter)
    also have "\<dots> = cell_at r0 c"
      using kept1 [OF c] by (rule cell_at_filter)
    finally show "(c, case cell_at (?f2 (?f1 r0)) c of NaN \<Rightarrow> Num 0 | v \<Rightarrow> v)
        = (c, case cell_at r0 c of NaN \<Rightarrow> Num 0 | v \<Rightarrow> v)"
      by (simp only:)
  qed
  have r1: "rows table = map ?fill (rows team_data') @ map ?fill (rows stats)"
    by (simp add: table fillna0_def concat_frames_def)
  have r2: "rows team_data' = map (\<lambda>r0. ?f2 (?f1 r0)) (rows agg_teams)"
    unfolding drop_columns_rows [OF td'] drop_columns_rows [OF td] by (simp only: map_map comp_def)
  have "map ?fill (rows team_data') = map ?fill (rows agg_teams)"
    unfolding r2 map_map comp_def by (simp only: same)
  with r1 have "rows table = map ?fill (rows agg_teams @ rows stats)"
    by (simp only: map_append)
  with gm td gts first feats cstats
  show "\<exists>gm team_data empty_cols stats.
         condense_positions gm_team = Inr gm \<and>
         drop_columns [''Team'', ''Season''] agg_teams = Inr team_data \<and>
         get_team_stats team_data gm = Inr (empty_cols, stats) \<and>
         set (x_cols table)
           = (set (columns agg_teams) - {''Team'', ''Season'', ''W-L%''}) \<inter> set (columns gm_team) \<and>
         set (x_cols table) = set (columns stats) \<and>
         rows table = map ?fill (rows agg_teams @ rows stats)"
    by blast
next
  assume "analyze_team reg gm_team agg_teams = Inr wins"
  then obtain table where t: "all_teams gm_team agg_teams = Inr table"
    and ml: "run_ml reg table = Inr wins"
    by (auto simp: analyze_team_def split: sum.splits)
  from run_ml_fits [OF ml] t
  show "\<exists>table model y.
         all_teams gm_team agg_teams = Inr table \<and> rows table \<noteq> [] \<and>
         fit reg (map (\<lambda>r. map (cell_at r) (x_cols table)) (butlast (rows table)))
           (map (\<lambda>r. cell_at r ''W-L%'') (butlast (rows table))) = Inr model \<and>
         predict reg model (map (cell_at (last (rows table))) (x_cols table)) = Inr y \<and>
         wins = py_round (y * 17)"
    by blast
qed

theorem feature_columns_agree_witness:
  "(\<exists>gm team_data empty_cols stats.
      condense_positions (from_dict example_team_dict) = Inr gm \<and>
      drop_columns [''Team'', ''Season''] example_agg_teams = Inr team_data \<and>
      get_team_stats team_data gm = Inr (empty_cols, stats) \<and>
      {''Cmp%'', ''Yds''}
        = (set (columns example_agg_teams) - {''Team'', ''Season'', ''W-L%''})
            \<inter> set (columns (from_dict example_team_dict)) \<and>
      {''Cmp%'', ''Yds''} = set (columns stats) \<and>
      [[(''Cmp%'', Num (125 / 2)), (''Yds'', Num 5000), (''W-L%'', Num (3 / 4))],
       [(''Cmp%'', Num 58), (''Yds'', Num 4000), (''W-L%'', Num (1 / 4))],
       [(''Cmp%'', Num 0), (''Yds'', Num 16), (''W-L%'', Num 0)]]
        = map (\<lambda>r. map (\<lambda>c. (c, case cell_at r c of NaN \<Rightarrow> Num 0 | v \<Rightarrow> v))
                       [''Cmp%'', ''Yds'', ''W-L%''])
            (rows example_agg_teams @ rows stats)) \<and>
   (\<exists>table model y.
      all_teams (from_dict example_team_dict) example_agg_teams = Inr table \<and> rows table \<noteq> [] \<and>
      fit (constant_estimator (1 / 4))
          (map (\<lambda>r. map (cell_at r) (x_cols table)) (butlast (rows table)))
          (map (\<lambda>r. cell_at r ''W-L%'') (butlast (rows table))) = Inr model \<and>
      predict (constant_estimator (1 / 4)) model
          (map (cell_at (last (rows table))) (x_cols table)) = Inr y \<and>
      (4 :: int) = py_round (y * 17))"
  using feature_columns_agree
    [of "from_dict example_team_dict" example_agg_teams
      "\<lparr>columns = [''Cmp%'', ''Yds'', ''W-L%''],
        rows =
          [[(''Cmp%'', Num (125 / 2)), (''Yds'', Num 5000), (''W-L%'', Num (3 / 4))],
           [(''Cmp%'', Num 58), (''Yds'', Num 4000), (''W-L%'', Num (1 / 4))],
           [(''Cmp%'', Num 0), (''Yds'', Num 16), (''W-L%'', Num 0)]]\<rparr>"
      "constant_estimator (1 / 4)" 4]
  by (simp add: example_all_teams example_analysis x_cols_def)

subsection \<open>Percentages\<close>













end
